theory Spec2Isabelle
  imports Main "HOL-Library.Char_ord" "HOL-Library.List_Lexorder" "HOL-Library.Multiset"
begin

section \<open>The file shell of mpfshell (mp/mpfshell.py)\<close>

text \<open>
  The module is Python 3 source: it holds non-ASCII string literals and no encoding
  declaration. Text (\<open>str\<close>) is modelled as \<open>string\<close>, the UTF-8 bytes of the text;
  byte sequences (\<open>bytes\<close>) are a type of their own where the program mixes the two.
  Every command handler is a function from the shell's state to an outcome (a value
  returned, or an exception that leaves the handler) and the state after. The commands
  on the host's own directory (\<open>lls\<close>, \<open>lcd\<close>, \<open>lpwd\<close>), the completers, the banner
  and \<open>main\<close> are left out.
\<close>

subsection \<open>Exceptions and outcomes\<close>

datatype exn_class =
  IOError | RemoteIOError | PyboardError | ConError | AttributeError | TypeError
  | ValueError | IndexError | RecursionError | UnicodeDecodeError

datatype exn = Exn (cls: exn_class) (msg: string)

datatype 'a outcome = Return 'a | Raise exn

subsection \<open>The file explorer's operations, as the shell calls them\<close>

datatype call =
  Connect bool string bool
  | Close
  | Pwd
  | Cd string
  | Ls
  | Fqn string
  | Md string
  | Put string "string option"
  | Putr string "string option"
  | Mput string string
  | Get string "string option"
  | Getr string "string option"
  | Mget string string
  | Rm string
  | Rmr string
  | Mrm string
  | Gets string
  | ExecRawNoFollow string
  | Follow
  | MpyCross string
  | Teardown
  | Setup
  | TermStart
  | TermJoin
  | TermCleanup

text \<open>
  What the shell does that can be observed: \<open>print\<close>, \<open>sys.stdout.write\<close>, a message
  shown by \<open>__error\<close>, \<open>logging.error\<close>, and each method called on the file explorer
  (or on the terminal of the REPL), in order.
\<close>

datatype event = Print string | Write string | Err string | Logged string | Call call

text \<open>The argument of \<open>__error\<close>: text, or a byte sequence.\<close>

datatype pymsg = Str string | Bytes string

subsection \<open>The environment\<close>

text \<open>
  The shell's collaborators are not in this module. The host side is a parameter: the
  platform, the text of the PySerial version, Python's \<open>int()\<close> on text (\<open>to_int\<close>: the
  number, or the exception it raises), the tokenizer (\<open>mp.tokenizer\<close>), whether a byte
  sequence decodes as UTF-8, and the depth of recursion the interpreter allows
  (\<open>limit\<close>). Whether \<open>RemoteIOError\<close> is declared a subclass of \<open>IOError\<close> is a
  parameter too (\<open>remote_is_io\<close>). The device side is a family of oracles over an
  abstract world \<open>'w\<close> (device, transport and host file system): what one round of an
  operation answers, given the tracked directory, and the world after it.
\<close>

record 'w env =
  windows :: bool
  serial_VERSION :: string
  to_int :: "string \<Rightarrow> exn + int"
  remote_is_io :: bool
  tokenize :: "string \<Rightarrow> string list \<times> string"
  utf8 :: "string \<Rightarrow> bool"
  limit :: nat
  getcwd :: "'w \<Rightarrow> string"
  connect :: "bool \<Rightarrow> string \<Rightarrow> bool \<Rightarrow> 'w \<Rightarrow> (exn + string) \<times> 'w"
  run :: "call \<Rightarrow> string \<Rightarrow> 'w \<Rightarrow> exn option \<times> 'w"
  listing :: "string \<Rightarrow> 'w \<Rightarrow> (exn + (string \<times> string) list) \<times> 'w"
  contents :: "string \<Rightarrow> string \<Rightarrow> 'w \<Rightarrow> (exn + string) \<times> 'w"
  follow :: "'w \<Rightarrow> (string list \<times> (exn + string \<times> string)) \<times> 'w"
  fqn :: "string \<Rightarrow> string \<Rightarrow> string"

subsection \<open>The state\<close>

text \<open>
  The file explorer object: its tracked remote directory and the device identity read
  at connect time.
\<close>

record explorer =
  dir :: string
  sysname :: string

record 'w shell =
  color :: bool
  caching :: bool
  reset :: bool
  fe :: "explorer option"
  repl :: "string option"
  prompt :: string
  trace :: "event list"
  world :: 'w

type_synonym ('a, 'w) act = "'w shell \<Rightarrow> 'a outcome \<times> 'w shell"

definition ret :: "'a \<Rightarrow> ('a, 'w) act" where
  "ret x sh = (Return x, sh)"

definition throw :: "exn \<Rightarrow> ('a, 'w) act" where
  "throw e sh = (Raise e, sh)"

definition seq :: "('a, 'w) act \<Rightarrow> ('a \<Rightarrow> ('b, 'w) act) \<Rightarrow> ('b, 'w) act" where
  "seq m f sh = (case m sh of (Return x, sh') \<Rightarrow> f x sh' | (Raise e, sh') \<Rightarrow> (Raise e, sh'))"

text \<open>
  \<open>isinstance\<close>, for the classes the handlers name in their \<open>except\<close> clauses.
\<close>

definition catches :: "'w env \<Rightarrow> exn_class \<Rightarrow> exn \<Rightarrow> bool" where
  "catches E c e = (cls e = c \<or> (c = IOError \<and> cls e = RemoteIOError \<and> remote_is_io E))"

text \<open>
  \<open>try: m except c1 as e: h1 e except c2 as e: h2 e\<close>: the first clause whose class
  the exception is an instance of handles it; an exception no clause names leaves.
\<close>

fun handle :: "'w env \<Rightarrow> (exn_class \<times> (exn \<Rightarrow> ('a, 'w) act)) list \<Rightarrow> exn \<Rightarrow> ('a, 'w) act" where
  "handle E [] e = throw e"
| "handle E ((c, h) # hs) e = (if catches E c e then h e else handle E hs e)"

definition try_except ::
  "'w env \<Rightarrow> ('a, 'w) act \<Rightarrow> (exn_class \<times> (exn \<Rightarrow> ('a, 'w) act)) list \<Rightarrow> ('a, 'w) act" where
  "try_except E m hs sh =
     (case m sh of (Return x, sh') \<Rightarrow> (Return x, sh') | (Raise e, sh') \<Rightarrow> handle E hs e sh')"

definition emit :: "event \<Rightarrow> (unit, 'w) act" where
  "emit ev sh = (Return (), sh\<lparr>trace := trace sh @ [ev]\<rparr>)"

subsection \<open>Text helpers\<close>

definition nl :: string where
  "nl = [CHR 0x0A]"

definition quote :: string where
  "quote = [CHR 0x27]"

definition startswith :: "string \<Rightarrow> string \<Rightarrow> bool" where
  "startswith s p = (take (length p) s = p)"

definition strip :: "string \<Rightarrow> string \<Rightarrow> string" where
  "strip s cs = rev (dropWhile (\<lambda>c. c \<in> set cs) (rev (dropWhile (\<lambda>c. c \<in> set cs) s)))"

text \<open>\<open>colorama.Fore\<close>: the ANSI escape sequences.\<close>

definition fore :: "string \<Rightarrow> string" where
  "fore code = CHR 0x1B # ''['' @ code @ ''m''"

definition fore_RED :: string where "fore_RED = fore ''31''"
definition fore_GREEN :: string where "fore_GREEN = fore ''32''"
definition fore_YELLOW :: string where "fore_YELLOW = fore ''33''"
definition fore_BLUE :: string where "fore_BLUE = fore ''34''"
definition fore_MAGENTA :: string where "fore_MAGENTA = fore ''35''"
definition fore_CYAN :: string where "fore_CYAN = fore ''36''"
definition fore_RESET :: string where "fore_RESET = fore ''39''"

subsection \<open>The file explorer, from the shell's side\<close>

text \<open>
  Modelled from the spec: the file explorer (\<open>mp.mpfexp\<close>) is not in this module.
  A method called while \<open>self.fe\<close> is \<open>None\<close> raises \<open>AttributeError\<close>. \<open>pwd()\<close>
  returns the tracked directory and never round-trips. \<open>cd(path)\<close> executes a snippet
  that verifies existence and changes directory; on success it updates the tracked
  directory, on any failure the tracked directory is unchanged. A path that starts with
  \<open>/\<close> is absolute; another one is resolved against the tracked directory
  (\<open>_fqn\<close>). Every other operation leaves the tracked directory as it is (it is
  mutated only by a successful \<open>cd\<close>) and answers what the device answers. The trace
  records each call with the arguments the shell passed.
\<close>

definition none_error :: "string \<Rightarrow> exn" where
  "none_error attr =
     Exn AttributeError (quote @ ''NoneType'' @ quote @ '' object has no attribute '' @ quote @ attr @ quote)"

definition called :: "call \<Rightarrow> 'w \<Rightarrow> 'w shell \<Rightarrow> 'w shell" where
  "called c w sh = sh\<lparr>trace := trace sh @ [Call c], world := w\<rparr>"

definition fe_pwd :: "(string, 'w) act" where
  "fe_pwd sh =
     (case fe sh of
        None \<Rightarrow> (Raise (none_error ''pwd''), sh)
      | Some f \<Rightarrow> (Return (dir f), sh\<lparr>trace := trace sh @ [Call Pwd]\<rparr>))"

definition cd_path :: "'w env \<Rightarrow> explorer \<Rightarrow> string \<Rightarrow> string" where
  "cd_path E f target = (if startswith target ''/'' then target else fqn E (dir f) target)"

definition fe_cd :: "'w env \<Rightarrow> string \<Rightarrow> (unit, 'w) act" where
  "fe_cd E target sh =
     (case fe sh of
        None \<Rightarrow> (Raise (none_error ''cd''), sh)
      | Some f \<Rightarrow>
          (case run E (Cd (cd_path E f target)) (dir f) (world sh) of
             (None, w) \<Rightarrow>
               (Return (), (called (Cd target) w sh)\<lparr>fe := Some (f\<lparr>dir := cd_path E f target\<rparr>)\<rparr>)
           | (Some e, w) \<Rightarrow> (Raise e, called (Cd target) w sh)))"

definition fe_ls :: "'w env \<Rightarrow> ((string \<times> string) list, 'w) act" where
  "fe_ls E sh =
     (case fe sh of
        None \<Rightarrow> (Raise (none_error ''ls''), sh)
      | Some f \<Rightarrow>
          (case listing E (dir f) (world sh) of
             (Inr files, w) \<Rightarrow> (Return files, called Ls w sh)
           | (Inl e, w) \<Rightarrow> (Raise e, called Ls w sh)))"

definition fe_fqn :: "'w env \<Rightarrow> string \<Rightarrow> (string, 'w) act" where
  "fe_fqn E name sh =
     (case fe sh of
        None \<Rightarrow> (Raise (none_error ''_fqn''), sh)
      | Some f \<Rightarrow> (Return (fqn E (dir f) name), sh\<lparr>trace := trace sh @ [Call (Fqn name)]\<rparr>))"

definition fe_gets :: "'w env \<Rightarrow> string \<Rightarrow> (string, 'w) act" where
  "fe_gets E name sh =
     (case fe sh of
        None \<Rightarrow> (Raise (none_error ''gets''), sh)
      | Some f \<Rightarrow>
          (case contents E name (dir f) (world sh) of
             (Inr text, w) \<Rightarrow> (Return text, called (Gets name) w sh)
           | (Inl e, w) \<Rightarrow> (Raise e, called (Gets name) w sh)))"

text \<open>The operations that return nothing: \<open>attr\<close> is the method's name.\<close>

definition fe_do :: "'w env \<Rightarrow> string \<Rightarrow> call \<Rightarrow> (unit, 'w) act" where
  "fe_do E attr c sh =
     (case fe sh of
        None \<Rightarrow> (Raise (none_error attr), sh)
      | Some f \<Rightarrow>
          (case run E c (dir f) (world sh) of
             (None, w) \<Rightarrow> (Return (), called c w sh)
           | (Some e, w) \<Rightarrow> (Raise e, called c w sh)))"

definition fe_sysname :: "(string, 'w) act" where
  "fe_sysname sh =
     (case fe sh of
        None \<Rightarrow> (Raise (none_error ''sysname''), sh)
      | Some f \<Rightarrow> (Return (sysname f), sh))"

text \<open>
  The constructor \<open>MpFileExplorer(port, reset)\<close> (or its caching decorator): on success
  a new explorer at the root directory, with the device identity it read.
\<close>

definition fe_new :: "'w env \<Rightarrow> bool \<Rightarrow> string \<Rightarrow> bool \<Rightarrow> (explorer, 'w) act" where
  "fe_new E cache port rst sh =
     (case connect E cache port rst (world sh) of
        (Inr name, w) \<Rightarrow> (Return \<lparr>dir = ''/'', sysname = name\<rparr>, called (Connect cache port rst) w sh)
      | (Inl e, w) \<Rightarrow> (Raise e, called (Connect cache port rst) w sh))"

subsection \<open>The shell's private methods\<close>

definition prompt_text :: "bool \<Rightarrow> string \<Rightarrow> string" where
  "prompt_text col pwd =
     (if col then fore_BLUE @ ''mpfs ['' @ fore_YELLOW @ pwd @ fore_BLUE @ '']> '' @ fore_RESET
      else ''mpfs ['' @ pwd @ '']> '')"

definition set_prompt_path :: "(unit, 'w) act" where
  "set_prompt_path sh =
     (if fe sh \<noteq> None
      then seq fe_pwd (\<lambda>pwd sh'. (Return (), sh'\<lparr>prompt := prompt_text (color sh') pwd\<rparr>)) sh
      else (Return (), sh\<lparr>prompt := prompt_text (color sh) ''/''\<rparr>))"

text \<open>
  \<open>__error(msg)\<close> prints \<open>'\n' + msg + '\n'\<close> (in red when colours are on). The
  concatenation of text and a byte sequence raises \<open>TypeError\<close> before anything is
  printed.
\<close>

definition concat_error :: exn where
  "concat_error = Exn TypeError ''can only concatenate str (not \"bytes\") to str''"

definition error :: "pymsg \<Rightarrow> (unit, 'w) act" where
  "error m =
     (case m of
        Str s \<Rightarrow> emit (Err s)
      | Bytes b \<Rightarrow> throw concat_error)"

text \<open>What an \<open>Err\<close> event puts on the screen.\<close>

definition rendered :: "bool \<Rightarrow> string \<Rightarrow> string" where
  "rendered col s = (if col then nl @ fore_RED @ s @ fore_RESET @ nl else nl @ s @ nl)"

definition disconnect :: "'w env \<Rightarrow> (unit, 'w) act" where
  "disconnect E sh =
     (if fe sh \<noteq> None
      then try_except E
             (seq (fe_do E ''close'' Close) (\<lambda>_.
              seq (\<lambda>sh'. (Return (), sh'\<lparr>fe := None\<rparr>)) (\<lambda>_.
              set_prompt_path)))
             [(RemoteIOError, \<lambda>e. error (Str (msg e)))] sh
      else (Return (), sh))"

definition connect_port :: "'w env \<Rightarrow> string \<Rightarrow> (unit, 'w) act" where
  "connect_port E port =
     try_except E
       (seq (disconnect E) (\<lambda>_.
        seq (\<lambda>sh. if reset sh then emit (Print ''Hard resetting device ...'') sh else (Return (), sh)) (\<lambda>_.
        seq (\<lambda>sh. fe_new E (caching sh) port (reset sh) sh) (\<lambda>f.
        seq (\<lambda>sh. (Return (), sh\<lparr>fe := Some f\<rparr>)) (\<lambda>_.
        seq fe_sysname (\<lambda>name.
        emit (Print (''Connected to '' @ name))))))))
       [(PyboardError, \<lambda>e. seq (emit (Logged (msg e))) (\<lambda>_. error (Str (msg e)))),
        (ConError, \<lambda>e. seq (emit (Logged (msg e))) (\<lambda>_. error (Str (''Failed to open: '' @ port)))),
        (AttributeError, \<lambda>e. seq (emit (Logged (msg e))) (\<lambda>_. error (Str (''Failed to open: '' @ port))))]"

definition not_connected :: string where
  "not_connected = ''Not connected to device. Use '' @ quote @ ''open'' @ quote @ '' first.''"

definition is_open :: "(bool, 'w) act" where
  "is_open sh =
     (if fe sh = None
      then seq (error (Str not_connected)) (\<lambda>_. ret False) sh
      else (Return True, sh))"

definition parse_file_names :: "'w env \<Rightarrow> string \<Rightarrow> (string list option, 'w) act" where
  "parse_file_names E args =
     (case tokenize E args of
        (tokens, rest) \<Rightarrow>
          if rest \<noteq> '''' then seq (error (Str (''Invalid filename given: '' @ rest))) (\<lambda>_. ret None)
          else ret (Some tokens))"

subsection \<open>Opening and closing\<close>

definition do_exit :: "'w env \<Rightarrow> string \<Rightarrow> (bool, 'w) act" where
  "do_exit E args = seq (disconnect E) (\<lambda>_. ret True)"

definition do_open :: "'w env \<Rightarrow> string \<Rightarrow> (unit, 'w) act" where
  "do_open E args =
     (if length args = 0 then error (Str ''Missing argument: <TARGET>'')
      else connect_port E
             (if \<not> startswith args ''ser:/dev/'' \<and> \<not> startswith args ''ser:COM''
                 \<and> \<not> startswith args ''tn:'' \<and> \<not> startswith args ''ws:''
              then (if windows E then ''ser:'' @ args else ''ser:/dev/'' @ args)
              else args))"

definition do_close :: "'w env \<Rightarrow> string \<Rightarrow> (unit, 'w) act" where
  "do_close E args = disconnect E"

subsection \<open>Small control helpers\<close>

definition when_do :: "bool \<Rightarrow> (unit, 'w) act \<Rightarrow> (unit, 'w) act" where
  "when_do c m = (if c then m else ret ())"

fun each :: "('a \<Rightarrow> (unit, 'w) act) \<Rightarrow> 'a list \<Rightarrow> (unit, 'w) act" where
  "each f [] = ret ()"
| "each f (x # xs) = seq (f x) (\<lambda>_. each f xs)"

subsection \<open>Listing\<close>

text \<open>\<open>sorted(sorted(files, key=name), key=kind)\<close>; both sorts are stable.\<close>

definition ls_sorted :: "(string \<times> string) list \<Rightarrow> (string \<times> string) list" where
  "ls_sorted files = sort_key snd (sort_key fst files)"

text \<open>The entries \<open>ls\<close> shows: the parent first added when the directory is not the root.\<close>

definition with_parent :: "string \<Rightarrow> (string \<times> string) list \<Rightarrow> (string \<times> string) list" where
  "with_parent pwd files = (if pwd \<noteq> ''/'' then [(''..'', ''D'')] @ files else files)"

definition ls_entries :: "string \<Rightarrow> (string \<times> string) list \<Rightarrow> (string \<times> string) list" where
  "ls_entries pwd files = ls_sorted (with_parent pwd files)"

definition ls_line :: "bool \<Rightarrow> string \<times> string \<Rightarrow> string" where
  "ls_line col entry =
     (case entry of (elem, type) \<Rightarrow>
        if type = ''F''
        then (if col then fore_CYAN @ (''       '' @ elem) @ fore_RESET else ''       '' @ elem)
        else (if col then fore_MAGENTA @ ('' <dir> '' @ elem) @ fore_RESET else '' <dir> '' @ elem))"

definition ls_header :: "string \<Rightarrow> string" where
  "ls_header pwd = nl @ ''Remote files in '' @ quote @ pwd @ quote @ '':'' @ nl"

text \<open>The statements of the \<open>try\<close> block of \<open>do_ls\<close>.\<close>

definition ls_try :: "'w env \<Rightarrow> string \<Rightarrow> (unit, 'w) act" where
  "ls_try E directory =
     seq (when_do (length directory \<noteq> 0) (fe_cd E directory)) (\<lambda>_.
     seq (fe_ls E) (\<lambda>files.
     seq fe_pwd (\<lambda>pwd1.
     seq fe_pwd (\<lambda>pwd2.
     seq (emit (Print (ls_header pwd2))) (\<lambda>_.
     seq (\<lambda>sh. each (\<lambda>entry. emit (Print (ls_line (color sh) entry))) (ls_entries pwd1 files) sh) (\<lambda>_.
     emit (Print [])))))))"

definition do_ls :: "'w env \<Rightarrow> string \<Rightarrow> (unit, 'w) act" where
  "do_ls E directory =
     seq is_open (\<lambda>opened.
       if opened then
         seq fe_pwd (\<lambda>olddir.
         seq (try_except E (ls_try E directory) [(IOError, \<lambda>e. error (Str (msg e)))]) (\<lambda>_.
         when_do (length directory \<noteq> 0) (fe_cd E olddir)))
       else ret ())"

subsection \<open>The tree\<close>

text \<open>
  The prefix of a tree line holds box-drawing characters and is indexed by character,
  so it is kept as a list of code points and encoded as UTF-8 when it is printed.
\<close>

type_synonym ustr = "nat list"

definition utf8_encode :: "nat \<Rightarrow> string" where
  "utf8_encode c =
     (if c < 0x80 then [char_of c]
      else if c < 0x800 then [char_of (0xC0 + c div 64), char_of (0x80 + c mod 64)]
      else if c < 0x10000 then
        [char_of (0xE0 + c div 4096), char_of (0x80 + c div 64 mod 64), char_of (0x80 + c mod 64)]
      else
        [char_of (0xF0 + c div 262144), char_of (0x80 + c div 4096 mod 64),
         char_of (0x80 + c div 64 mod 64), char_of (0x80 + c mod 64)])"

definition encode :: "ustr \<Rightarrow> string" where
  "encode t = concat (map utf8_encode t)"

definition space :: nat where "space = 0x20"
definition corner :: nat where "corner = 0x2514"
definition tee :: nat where "tee = 0x251C"
definition pipe :: nat where "pipe = 0x2502"
definition dash :: nat where "dash = 0x2500"

definition last_branch :: ustr where
  "last_branch = [corner, dash, dash, space]"

definition mid_branch :: ustr where
  "mid_branch = [tee, dash, dash, space]"

text \<open>\<open>pwd.split("/")[-1]\<close>\<close>

definition last_component :: "string \<Rightarrow> string" where
  "last_component s = rev (takeWhile (\<lambda>c. c \<noteq> CHR ''/'') (rev s))"

text \<open>\<open>prefix[:-4]\<close> and \<open>prefix[-4]\<close>; the index raises on a shorter prefix.\<close>

definition drop_last4 :: "ustr \<Rightarrow> ustr" where
  "drop_last4 p = take (length p - 4) p"

definition fourth_last :: "ustr \<Rightarrow> (nat, 'w) act" where
  "fourth_last p =
     (if length p < 4 then throw (Exn IndexError ''string index out of range'')
      else ret (p ! (length p - 4)))"

definition tree_dir_line :: "bool \<Rightarrow> ustr \<Rightarrow> string \<Rightarrow> string" where
  "tree_dir_line col p pwd =
     (if col then fore_MAGENTA @ (encode p @ last_component pwd) @ fore_RESET
      else encode p @ last_component pwd)"

definition tree_file_line :: "bool \<Rightarrow> ustr \<Rightarrow> string \<Rightarrow> string" where
  "tree_file_line col p elem =
     (if col then fore_CYAN @ (encode p @ elem) @ fore_RESET else encode p @ elem)"

definition entry_prefix :: "ustr \<Rightarrow> (ustr, 'w) act" where
  "entry_prefix p =
     (if length p \<ge> 3
      then seq (fourth_last p) (\<lambda>c.
             ret (drop_last4 p @ [if c = space then space else pipe] @ replicate 3 space))
      else ret p)"

definition settle_prefix :: "ustr \<Rightarrow> (ustr, 'w) act" where
  "settle_prefix p =
     (if length p \<ge> 4
      then seq (fourth_last p) (\<lambda>c.
             ret (if c = corner then drop_last4 p @ replicate 4 space else p))
      else ret p)"

text \<open>
  \<open>rec_tree\<close> calls itself for every directory it lists. The first argument is the
  depth of recursion the interpreter still allows: Python raises \<open>RecursionError\<close>
  beyond it, so the function is total whatever the device answers. \<open>tree_loop\<close> is the
  \<open>for\<close> loop, with the counter \<open>i\<close> and \<open>len(files)\<close>.
\<close>

fun rec_tree :: "'w env \<Rightarrow> nat \<Rightarrow> string \<Rightarrow> ustr \<Rightarrow> (unit, 'w) act"
  and tree_loop :: "'w env \<Rightarrow> nat \<Rightarrow> ustr \<Rightarrow> nat \<Rightarrow> nat \<Rightarrow> (string \<times> string) list \<Rightarrow> (unit, 'w) act"
where
  "rec_tree E 0 directory p = throw (Exn RecursionError ''maximum recursion depth exceeded'')"
| "rec_tree E (Suc d) directory p =
     try_except E
       (seq fe_pwd (\<lambda>olddir.
        seq (fe_cd E directory) (\<lambda>_.
        seq (fe_ls E) (\<lambda>files.
        seq fe_pwd (\<lambda>pwd.
        seq (\<lambda>sh. emit (Print (tree_dir_line (color sh) p pwd)) sh) (\<lambda>_.
        seq (settle_prefix p) (\<lambda>p'.
        seq (tree_loop E d p' (length files) 0 (ls_sorted files)) (\<lambda>_.
        fe_cd E olddir))))))))
       [(IOError, \<lambda>e. error (Str (msg e)))]"
| "tree_loop E d p n i [] = ret ()"
| "tree_loop E d p n i (entry # rest) =
     seq (if snd entry = ''F''
          then seq (entry_prefix p) (\<lambda>fp.
                 (\<lambda>sh. emit (Print (tree_file_line (color sh)
                                (fp @ (if n = i + 1 then last_branch else mid_branch)) (fst entry))) sh))
          else seq (fe_fqn E (fst entry)) (\<lambda>path.
                 rec_tree E d path (p @ (if n = i + 1 then last_branch else mid_branch))))
       (\<lambda>_. tree_loop E d p n (i + 1) rest)"

definition do_tree :: "'w env \<Rightarrow> string \<Rightarrow> (unit, 'w) act" where
  "do_tree E directory =
     seq is_open (\<lambda>opened.
       if opened then
         seq fe_pwd (\<lambda>olddir.
         seq (if length directory \<noteq> 0
              then seq (fe_cd E directory) (\<lambda>_. ret directory)
              else fe_pwd) (\<lambda>directory'.
         seq (rec_tree E (limit E) directory' []) (\<lambda>_.
         when_do (length directory' \<noteq> 0) (fe_cd E olddir))))
       else ret ())"

subsection \<open>Commands on remote paths\<close>

definition do_pwd :: "'w env \<Rightarrow> string \<Rightarrow> (unit, 'w) act" where
  "do_pwd E args =
     seq is_open (\<lambda>opened.
       if opened then seq fe_pwd (\<lambda>pwd. emit (Print pwd)) else ret ())"

definition do_cd :: "'w env \<Rightarrow> string \<Rightarrow> (unit, 'w) act" where
  "do_cd E args =
     (if length args = 0 then error (Str ''Missing argument: <REMOTE DIR>'')
      else seq is_open (\<lambda>opened.
        if opened then
          try_except E
            (seq (parse_file_names E args) (\<lambda>s_args.
               case s_args of
                 None \<Rightarrow> ret ()
               | Some ts \<Rightarrow>
                   if ts = [] then ret ()
                   else if length ts > 1 then error (Str ''Only one argument allowed: <REMOTE DIR>'')
                   else seq (fe_cd E (ts ! 0)) (\<lambda>_. set_prompt_path)))
            [(IOError, \<lambda>e. error (Str (msg e))),
             (RemoteIOError, \<lambda>e. error (Str (msg e)))]
        else ret ()))"

definition do_md :: "'w env \<Rightarrow> string \<Rightarrow> (unit, 'w) act" where
  "do_md E args =
     (if length args = 0 then error (Str ''Missing argument: <REMOTE DIR>'')
      else seq is_open (\<lambda>opened.
        if opened then
          try_except E
            (seq (parse_file_names E args) (\<lambda>s_args.
               case s_args of
                 None \<Rightarrow> ret ()
               | Some ts \<Rightarrow>
                   if ts = [] then ret ()
                   else if length ts > 1 then error (Str ''Only one argument allowed: <REMOTE DIR>'')
                   else fe_do E ''md'' (Md (ts ! 0))))
            [(IOError, \<lambda>e. error (Str (msg e)))]
        else ret ()))"

text \<open>
  The commands that take one path or two: \<open>dst\<close> is the second token when there is
  one, \<open>None\<close> otherwise.
\<close>

definition dst :: "string list \<Rightarrow> string option" where
  "dst ts = (if length ts > 1 then Some (ts ! 1) else None)"

definition do_put :: "'w env \<Rightarrow> string \<Rightarrow> (unit, 'w) act" where
  "do_put E args =
     (if length args = 0 then error (Str ''Missing arguments: <LOCAL FILE> [<REMOTE FILE>]'')
      else seq is_open (\<lambda>opened.
        if opened then
          seq (parse_file_names E args) (\<lambda>s_args.
            case s_args of
              None \<Rightarrow> ret ()
            | Some ts \<Rightarrow>
                if ts = [] then ret ()
                else if length ts > 2
                then error (Str ''Only one ore two arguments allowed: <LOCAL FILE> [<REMOTE FILE>]'')
                else try_except E (fe_do E ''put'' (Put (ts ! 0) (dst ts)))
                       [(IOError, \<lambda>e. error (Str (msg e)))])
        else ret ()))"

definition do_putr :: "'w env \<Rightarrow> string \<Rightarrow> (unit, 'w) act" where
  "do_putr E args =
     (if length args = 0 then error (Str ''Missing arguments: <LOCAL DIRECTORY> [<REMOTE DIRECTORY>]'')
      else seq is_open (\<lambda>opened.
        if opened then
          seq (parse_file_names E args) (\<lambda>s_args.
            case s_args of
              None \<Rightarrow> ret ()
            | Some ts \<Rightarrow>
                if ts = [] then ret ()
                else if length ts > 2
                then error (Str ''Only one ore two arguments allowed: <LOCAL DIRECTORY> [<REMOTE DIRECTORY>]'')
                else try_except E (fe_do E ''putr'' (Putr (ts ! 0) (dst ts)))
                       [(IOError, \<lambda>e. error (Str (msg e)))])
        else ret ()))"

definition do_mput :: "'w env \<Rightarrow> string \<Rightarrow> (unit, 'w) act" where
  "do_mput E args =
     (if length args = 0 then error (Str ''Missing argument: <SELECTION REGEX>'')
      else seq is_open (\<lambda>opened.
        if opened then
          try_except E (\<lambda>sh. fe_do E ''mput'' (Mput (getcwd E (world sh)) args) sh)
            [(IOError, \<lambda>e. error (Str (msg e)))]
        else ret ()))"

definition do_get :: "'w env \<Rightarrow> string \<Rightarrow> (unit, 'w) act" where
  "do_get E args =
     (if length args = 0 then error (Str ''Missing arguments: <REMOTE FILE> [<LOCAL FILE>]'')
      else seq is_open (\<lambda>opened.
        if opened then
          seq (parse_file_names E args) (\<lambda>s_args.
            case s_args of
              None \<Rightarrow> ret ()
            | Some ts \<Rightarrow>
                if ts = [] then ret ()
                else if length ts > 2
                then error (Str ''Only one ore two arguments allowed: <REMOTE FILE> [<LOCAL FILE>]'')
                else try_except E (fe_do E ''get'' (Get (ts ! 0) (dst ts)))
                       [(IOError, \<lambda>e. error (Str (msg e)))])
        else ret ()))"

definition do_getr :: "'w env \<Rightarrow> string \<Rightarrow> (unit, 'w) act" where
  "do_getr E args =
     (if length args = 0 then error (Str ''Missing arguments: <REMOTE DIRECTORY> [<LOCAL DIRECTORY>]'')
      else seq is_open (\<lambda>opened.
        if opened then
          seq (parse_file_names E args) (\<lambda>s_args.
            case s_args of
              None \<Rightarrow> ret ()
            | Some ts \<Rightarrow>
                if ts = [] then ret ()
                else if length ts > 2
                then error (Str ''Only one ore two arguments allowed: <REMOTE DIRECTORY> [<LOCAL DIRECTORY>]'')
                else try_except E (fe_do E ''getr'' (Getr (ts ! 0) (dst ts)))
                       [(IOError, \<lambda>e. error (Str (msg e)))])
        else ret ()))"

definition do_mget :: "'w env \<Rightarrow> string \<Rightarrow> (unit, 'w) act" where
  "do_mget E args =
     (if length args = 0 then error (Str ''Missing argument: <SELECTION REGEX>'')
      else seq is_open (\<lambda>opened.
        if opened then
          try_except E (\<lambda>sh. fe_do E ''mget'' (Mget (getcwd E (world sh)) args) sh)
            [(IOError, \<lambda>e. error (Str (msg e)))]
        else ret ()))"

definition unable :: "(unit, 'w) act" where
  "unable = seq fe_sysname (\<lambda>name. error (Str (''Unable to send request to '' @ name)))"

definition do_rm :: "'w env \<Rightarrow> string \<Rightarrow> (unit, 'w) act" where
  "do_rm E args =
     (if length args = 0 then error (Str ''Missing argument: <REMOTE FILE>'')
      else seq is_open (\<lambda>opened.
        if opened then
          seq (parse_file_names E args) (\<lambda>s_args.
            case s_args of
              None \<Rightarrow> ret ()
            | Some ts \<Rightarrow>
                if ts = [] then ret ()
                else if length ts > 1 then error (Str ''Only one argument allowed: <REMOTE FILE>'')
                else try_except E (fe_do E ''rm'' (Rm (ts ! 0)))
                       [(IOError, \<lambda>e. error (Str (msg e))),
                        (PyboardError, \<lambda>e. unable)])
        else ret ()))"

definition do_rmr :: "'w env \<Rightarrow> string \<Rightarrow> (unit, 'w) act" where
  "do_rmr E args =
     (if length args = 0 then error (Str ''Missing argument: <REMOTE DIRECTORY>'')
      else seq is_open (\<lambda>opened.
        if opened then
          seq (parse_file_names E args) (\<lambda>s_args.
            case s_args of
              None \<Rightarrow> ret ()
            | Some ts \<Rightarrow>
                if ts = [] then ret ()
                else if length ts > 1 then error (Str ''Only one argument allowed: <REMOTE DIRECTORY>'')
                else try_except E (fe_do E ''rmr'' (Rmr (ts ! 0)))
                       [(IOError, \<lambda>e. error (Str (msg e))),
                        (PyboardError, \<lambda>e. unable)])
        else ret ()))"

definition do_mrm :: "'w env \<Rightarrow> string \<Rightarrow> (unit, 'w) act" where
  "do_mrm E args =
     (if length args = 0 then error (Str ''Missing argument: <SELECTION REGEX>'')
      else seq is_open (\<lambda>opened.
        if opened then
          try_except E (fe_do E ''mrm'' (Mrm args))
            [(IOError, \<lambda>e. error (Str (msg e)))]
        else ret ()))"

definition do_cat :: "'w env \<Rightarrow> string \<Rightarrow> (unit, 'w) act" where
  "do_cat E args =
     (if length args = 0 then error (Str ''Missing argument: <REMOTE FILE>'')
      else seq is_open (\<lambda>opened.
        if opened then
          seq (parse_file_names E args) (\<lambda>s_args.
            case s_args of
              None \<Rightarrow> ret ()
            | Some ts \<Rightarrow>
                if ts = [] then ret ()
                else if length ts > 1 then error (Str ''Only one argument allowed: <REMOTE FILE>'')
                else try_except E (seq (fe_gets E (ts ! 0)) (\<lambda>s. emit (Print s)))
                       [(IOError, \<lambda>e. error (Str (msg e)))])
        else ret ()))"

text \<open>\<open>mpyc\<close> does not ask whether a connection is open.\<close>

definition do_mpyc :: "'w env \<Rightarrow> string \<Rightarrow> (unit, 'w) act" where
  "do_mpyc E args =
     (if length args = 0 then error (Str ''Missing argument: <LOCAL FILE>'')
      else seq (parse_file_names E args) (\<lambda>s_args.
        case s_args of
          None \<Rightarrow> ret ()
        | Some ts \<Rightarrow>
            if ts = [] then ret ()
            else if length ts > 1 then error (Str ''Only one argument allowed: <LOCAL FILE>'')
            else try_except E (fe_do E ''mpy_cross'' (MpyCross (ts ! 0)))
                   [(IOError, \<lambda>e. error (Str (msg e)))]))"

subsection \<open>Executing a statement\<close>

text \<open>
  \<open>data_consumer\<close> decodes each fragment the device streams and writes it without its
  end-of-transmission bytes.
\<close>

definition data_consumer :: "'w env \<Rightarrow> string \<Rightarrow> (unit, 'w) act" where
  "data_consumer E data =
     (if utf8 E data then emit (Write (strip data [CHR 0x04]))
      else throw (Exn UnicodeDecodeError ''invalid utf-8''))"

text \<open>
  Modelled from the spec: \<open>follow\<close> (the streamed result of one execution) invokes the
  callback with each received fragment as it arrives and returns the execution result,
  the pair of byte sequences \<open>(stdout, stderr)\<close>.
\<close>

definition fe_follow :: "'w env \<Rightarrow> (string \<Rightarrow> (unit, 'w) act) \<Rightarrow> (string \<times> string, 'w) act" where
  "fe_follow E consumer sh =
     (case fe sh of
        None \<Rightarrow> (Raise (none_error ''follow''), sh)
      | Some f \<Rightarrow>
          (case follow E (world sh) of
             ((chunks, result), w) \<Rightarrow>
               seq (each consumer chunks)
                 (\<lambda>_. case result of Inr r \<Rightarrow> ret r | Inl e \<Rightarrow> throw e)
                 (called Follow w sh)))"

definition do_exec :: "'w env \<Rightarrow> string \<Rightarrow> (unit, 'w) act" where
  "do_exec E args =
     (if length args = 0 then error (Str ''Missing argument: <STATEMENT>'')
      else seq is_open (\<lambda>opened.
        if opened then
          try_except E
            (seq (fe_do E ''exec_raw_no_follow'' (ExecRawNoFollow (args @ nl))) (\<lambda>_.
             seq (fe_follow E (data_consumer E)) (\<lambda>r.
             when_do (length (snd r) \<noteq> 0) (error (Bytes (snd r))))))
            [(IOError, \<lambda>e. error (Str (msg e))),
             (PyboardError, \<lambda>e. error (Str (msg e)))]
        else ret ()))"

subsection \<open>The REPL\<close>

text \<open>
  The terminal (\<open>mp.term\<close>) is driven through the same oracle; what \<open>join\<close> raises is
  dropped (\<open>except Exception: pass\<close>). \<open>repl\<close> holds the exit character once the
  terminal exists.
\<close>

definition term_do :: "'w env \<Rightarrow> call \<Rightarrow> (unit, 'w) act" where
  "term_do E c sh =
     (case run E c [] (world sh) of
        (None, w) \<Rightarrow> (Return (), called c w sh)
      | (Some e, w) \<Rightarrow> (Raise e, called c w sh))"

definition term_join :: "'w env \<Rightarrow> (unit, 'w) act" where
  "term_join E sh = (Return (), called TermJoin (snd (run E TermJoin [] (world sh))) sh)"

text \<open>\<open>s.split(sep)\<close> for a separator of one character: never an empty list.\<close>

fun split_on :: "char \<Rightarrow> string \<Rightarrow> string list" where
  "split_on sep [] = [[]]"
| "split_on sep (c # cs) =
     (if c = sep then [] # split_on sep cs
      else (c # hd (split_on sep cs)) # tl (split_on sep cs))"

text \<open>
  The test \<open>int(ver[0]) < 2 or (int(ver[0]) == 2 and int(ver[1]) < 7)\<close> on
  \<open>ver = serial.VERSION.split(".")\<close>, evaluated from the left: \<open>int\<close> raises on text that
  is not a number, and \<open>ver[1]\<close> raises \<open>IndexError\<close> when the version has one component
  only. The second component is read only when the first is 2.
\<close>

definition old_pyserial :: "'w env \<Rightarrow> exn + bool" where
  "old_pyserial E =
     (let ver = split_on CHR ''.'' (serial_VERSION E) in
        case to_int E (ver ! 0) of
          Inl e \<Rightarrow> Inl e
        | Inr major \<Rightarrow>
            if major < 2 then Inr True
            else if major = 2 then
              (if length ver < 2 then Inl (Exn IndexError ''list index out of range'')
               else (case to_int E (ver ! 1) of
                       Inl e \<Rightarrow> Inl e
                     | Inr minor \<Rightarrow> Inr (minor < 7)))
            else Inr False)"

definition do_repl :: "'w env \<Rightarrow> string \<Rightarrow> (unit, 'w) act" where
  "do_repl E args =
     (case old_pyserial E of
        Inl e \<Rightarrow> throw e
      | Inr old \<Rightarrow>
          if old
          then error (Str (''REPL needs PySerial version >= 2.7, found '' @ serial_VERSION E))
          else seq is_open (\<lambda>opened.
            if opened then
              seq (\<lambda>sh. if repl sh = None
                         then (Return (), sh\<lparr>repl := Some (if windows E then [CHR 0x11] else [CHR 0x1D])\<rparr>)
                         else (Return (), sh)) (\<lambda>_.
              seq (fe_do E ''teardown'' Teardown) (\<lambda>_.
              seq (term_do E TermStart) (\<lambda>_.
              seq (\<lambda>sh. emit (Print (if repl sh = Some [CHR 0x11]
                                      then nl @ ''*** Exit REPL with Ctrl+Q ***''
                                      else nl @ ''*** Exit REPL with Ctrl+] ***'')) sh) (\<lambda>_.
              seq (term_join E) (\<lambda>_.
              seq (term_do E TermCleanup) (\<lambda>_.
              seq (fe_do E ''setup'' Setup) (\<lambda>_.
              emit (Print [] ))))))))
            else ret ()))"

text \<open>The shell as \<open>__init__\<close> leaves it.\<close>

definition new_shell :: "bool \<Rightarrow> bool \<Rightarrow> bool \<Rightarrow> 'w \<Rightarrow> 'w shell" where
  "new_shell col cache rst w =
     \<lparr>color = col, caching = cache, reset = rst, fe = None, repl = None,
      prompt = prompt_text col ''/'', trace = [], world = w\<rparr>"

subsection \<open>A board to run the shell against\<close>

text \<open>
  A concrete environment for the examples: a tokenizer that splits at spaces and stops at
  a double quote, an \<open>int()\<close> of decimal digits, PySerial 3.4, and a device with the directories \<open>/\<close> and \<open>/lib\<close> that counts
  its round trips. Changing into any other directory fails with \<open>RemoteIOError\<close>, and so
  does making or removing \<open>lib\<close> (it exists, and is not empty); the statement it
  executes fails on the device (its stderr is not empty). \<open>unplugged\<close> is the same
  board with the link down: every round trip fails with \<open>ConError\<close>.
\<close>

text \<open>The board's \<open>int()\<close>: decimal digits, and nothing else.\<close>

fun digits_value :: "int \<Rightarrow> string \<Rightarrow> int option" where
  "digits_value n [] = Some n"
| "digits_value n (c # cs) =
     (if 48 \<le> (of_char c :: nat) \<and> (of_char c :: nat) < 58
      then digits_value (10 * n + int (of_char c) - 48) cs
      else None)"

definition digits_int :: "string \<Rightarrow> exn + int" where
  "digits_int s =
     (case (if s = [] then None else digits_value 0 s) of
        None \<Rightarrow> Inl (Exn ValueError (''invalid literal for int() with base 10: '' @ quote @ s @ quote))
      | Some n \<Rightarrow> Inr n)"

fun words_of :: "string \<Rightarrow> string \<Rightarrow> string list \<times> string" where
  "words_of acc [] = (if acc = [] then [] else [rev acc], [])"
| "words_of acc (c # cs) =
     (if c = CHR 0x22 then (if acc = [] then [] else [rev acc], c # cs)
      else if c = CHR '' '' then
        (case words_of [] cs of (ts, r) \<Rightarrow> ((if acc = [] then ts else rev acc # ts), r))
      else words_of (c # acc) cs)"

definition board_run :: "call \<Rightarrow> string \<Rightarrow> nat \<Rightarrow> exn option \<times> nat" where
  "board_run c d w =
     (case c of
        Cd p \<Rightarrow> (if p = ''/'' \<or> p = ''/lib'' then None
                  else Some (Exn RemoteIOError (''No such directory: '' @ p)), Suc w)
      | Md p \<Rightarrow> (if p = ''lib'' then Some (Exn RemoteIOError (''Invalid directory name: '' @ p))
                  else None, Suc w)
      | Rm p \<Rightarrow> (if p = ''lib'' then Some (Exn RemoteIOError (''No such file or directory: '' @ p))
                  else None, Suc w)
      | _ \<Rightarrow> (None, Suc w))"

definition board_listing :: "string \<Rightarrow> nat \<Rightarrow> (exn + (string \<times> string) list) \<times> nat" where
  "board_listing d w =
     (if d = ''/'' then Inr [(''boot.py'', ''F''), (''lib'', ''D''), (''app.py'', ''F'')]
      else if d = ''/lib'' then Inr [(''util.py'', ''F''), (''pkg'', ''D''), (''main.py'', ''F'')]
      else Inl (Exn RemoteIOError (''No such directory: '' @ d)), Suc w)"

definition board :: "nat env" where
  "board =
     \<lparr>windows = False, serial_VERSION = ''3.4'', to_int = digits_int, remote_is_io = True,
      tokenize = words_of [], utf8 = (\<lambda>b. True), limit = 1000, getcwd = (\<lambda>w. ''/home/user''),
      connect = (\<lambda>cache port rst w. (Inr ''pyboard'', Suc w)),
      run = board_run,
      listing = board_listing,
      contents = (\<lambda>name d w. (Inr ''print(1)'', Suc w)),
      follow = (\<lambda>w. (([], Inr ([], ''ZeroDivisionError: division by zero'')), Suc w)),
      fqn = (\<lambda>d name. if d = ''/'' then d @ name else d @ ''/'' @ name)\<rparr>"

definition unplugged :: "nat env" where
  "unplugged = board\<lparr>run := (\<lambda>c d w. (Some (Exn ConError ''device not reachable''), w))\<rparr>"


text \<open>The shell connected to the board, in the directory \<open>d\<close>.\<close>

definition at_dir :: "string \<Rightarrow> nat shell" where
  "at_dir d = (new_shell False False False 0)\<lparr>fe := Some \<lparr>dir = d, sysname = ''pyboard''\<rparr>\<rparr>"

subsection \<open>File transfer in chunks\<close>

text \<open>
  Modelled from the spec: \<open>put\<close> and \<open>get\<close> of the file explorer (\<open>mp.mpfexp\<close>) are not
  in this module. A write snippet carries the bytes of one chunk encoded into a form safe
  to embed as literal source text, escaping control and non-printable bytes: a printable
  byte other than the backslash and the quote stands for itself, any other byte is
  written as a backslash, \<open>x\<close> and two hexadecimal digits. \<open>unescape\<close> is the device
  reading that literal; a malformed literal has no value.
\<close>

definition hexdigit :: "nat \<Rightarrow> char" where
  "hexdigit d = (if d < 10 then char_of (48 + d) else char_of (87 + d))"

definition ishex :: "char \<Rightarrow> bool" where
  "ishex c = ((48 \<le> (of_char c :: nat) \<and> (of_char c :: nat) < 58)
              \<or> (97 \<le> (of_char c :: nat) \<and> (of_char c :: nat) < 103))"

definition hexval :: "char \<Rightarrow> nat" where
  "hexval c = (if (of_char c :: nat) < 58 then of_char c - 48 else of_char c - 87)"

definition escape_byte :: "char \<Rightarrow> string" where
  "escape_byte b =
     (if 32 \<le> (of_char b :: nat) \<and> (of_char b :: nat) < 127 \<and> b \<noteq> CHR 0x5C \<and> b \<noteq> CHR 0x27
      then [b]
      else [CHR 0x5C, CHR ''x'', hexdigit (of_char b div 16), hexdigit (of_char b mod 16)])"

definition escape :: "string \<Rightarrow> string" where
  "escape bs = concat (map escape_byte bs)"

fun unescape :: "string \<Rightarrow> string option" where
  "unescape [] = Some []"
| "unescape (c # cs) =
     (if c \<noteq> CHR 0x5C then map_option ((#) c) (unescape cs)
      else (case cs of
              x # h # l # rest \<Rightarrow>
                if x = CHR ''x'' \<and> ishex h \<and> ishex l
                then map_option ((#) (char_of (16 * hexval h + hexval l))) (unescape rest)
                else None
            | _ \<Rightarrow> None))"

text \<open>
  Modelled from the spec: the read snippet of \<open>get\<close> returns one encoded chunk per round
  trip, which the host decodes. The encoding is two hexadecimal digits for each byte.
\<close>

definition hexlify :: "string \<Rightarrow> string" where
  "hexlify bs = concat (map (\<lambda>b. [hexdigit (of_char b div 16), hexdigit (of_char b mod 16)]) bs)"

fun unhexlify :: "string \<Rightarrow> string option" where
  "unhexlify [] = Some []"
| "unhexlify [h] = None"
| "unhexlify (h # l # rest) =
     (if ishex h \<and> ishex l
      then map_option ((#) (char_of (16 * hexval h + hexval l))) (unhexlify rest)
      else None)"

text \<open>
  Modelled from the spec: a chunk is a bounded byte slice of the configured size \<open>c\<close>;
  chunks are ordered. \<open>chunks c bs\<close> are the slices the upload reads from the local file,
  until a read returns nothing.
\<close>

function chunks :: "nat \<Rightarrow> string \<Rightarrow> string list" where
  "chunks c bs = (if c = 0 \<or> bs = [] then [] else take c bs # chunks c (drop c bs))"
  by pat_completeness auto
termination
  by (relation "measure (\<lambda>(c, bs). length bs)") auto

declare chunks.simps [simp del]

text \<open>
  Modelled from the spec: \<open>put\<close> opens (or creates) the remote file once, then issues one
  write snippet per local chunk, applied in order, and closes the remote file after the
  last chunk. \<open>write_all\<close> is the device executing the snippets; the store holds the files
  of the host and of the device by path.
\<close>

fun write_all :: "string list \<Rightarrow> string \<Rightarrow> string option" where
  "write_all [] content = Some content"
| "write_all (s # ss) content =
     (case unescape s of None \<Rightarrow> None | Some bs \<Rightarrow> write_all ss (content @ bs))"

record store =
  local_files :: "string \<rightharpoonup> string"
  remote_files :: "string \<rightharpoonup> string"

definition put_file :: "nat \<Rightarrow> string \<Rightarrow> string \<Rightarrow> store \<Rightarrow> exn + store" where
  "put_file c lpath rpath w =
     (case local_files w lpath of
        None \<Rightarrow> Inl (Exn IOError (''No such file: '' @ lpath))
      | Some f \<Rightarrow>
          (case write_all (map escape (chunks c f)) [] of
             None \<Rightarrow> Inl (Exn PyboardError ''invalid syntax'')
           | Some content \<Rightarrow> Inr (w\<lparr>remote_files := (remote_files w)(rpath \<mapsto> content)\<rparr>)))"

text \<open>
  The two encodings are read back as they were written. The download loop below
  terminates because of it.
\<close>

lemma hex_digit: "d < 16 \<Longrightarrow> ishex (hexdigit d) \<and> hexval (hexdigit d) = d"
  by (simp add: hexdigit_def ishex_def hexval_def)

lemma hex_byte:
  "char_of (16 * hexval (hexdigit (of_char b div 16)) + hexval (hexdigit (of_char b mod 16))) = b"
proof -
  have "(of_char b :: nat) div 16 < 16"
    by (rule less_mult_imp_div_less) simp
  then show ?thesis
    by (simp add: hex_digit)
qed

lemma hex_ok: "ishex (hexdigit (of_char b div 16))" "ishex (hexdigit (of_char b mod 16))"
proof -
  have "(of_char b :: nat) div 16 < 16"
    by (rule less_mult_imp_div_less) simp
  then show "ishex (hexdigit (of_char b div 16))" "ishex (hexdigit (of_char b mod 16))"
    by (simp_all add: hex_digit)
qed

lemma unescape_escape_app: "unescape (escape bs) = Some bs"
  by (induction bs) (simp_all add: escape_def escape_byte_def hex_byte hex_ok)

lemma unhexlify_hexlify: "unhexlify (hexlify bs) = Some bs"
  by (induction bs) (simp_all add: hexlify_def hex_byte hex_ok)

text \<open>
  Modelled from the spec: \<open>get\<close> opens the remote file and reads it chunk by chunk; each
  round trip returns one encoded chunk, and a short or empty chunk signals the end of the
  file. The host decodes each chunk and appends it to the local file. \<open>read_all\<close> is that
  loop: \<open>pos\<close> is the position in the remote file, \<open>got\<close> what has been appended.
\<close>

function read_all :: "nat \<Rightarrow> string \<Rightarrow> nat \<Rightarrow> string \<Rightarrow> string option" where
  "read_all c content pos got =
     (case unhexlify (hexlify (take c (drop pos content))) of
        None \<Rightarrow> None
      | Some chunk \<Rightarrow>
          if chunk = [] then Some got
          else if length chunk < c then Some (got @ chunk)
          else read_all c content (pos + c) (got @ chunk))"
  by pat_completeness auto
termination
proof (relation "measure (\<lambda>(c, content, pos, got). length content - pos)")
  show "wf (measure (\<lambda>(c, content, pos, got). length content - pos))"
    by simp
next
  fix c :: nat and content :: string and pos :: nat and got chunk :: string
  assume "unhexlify (hexlify (take c (drop pos content))) = Some chunk"
    and ne: "chunk \<noteq> []"
  then have "chunk = take c (drop pos content)"
    by (simp add: unhexlify_hexlify)
  with ne have "0 < c" "pos < length content"
    by (cases c; simp)+
  then show "((c, content, pos + c, got @ chunk), (c, content, pos, got))
      \<in> measure (\<lambda>(c, content, pos, got). length content - pos)"
    by simp
qed

declare read_all.simps [simp del]

definition get_file :: "nat \<Rightarrow> string \<Rightarrow> string \<Rightarrow> store \<Rightarrow> exn + store" where
  "get_file c rpath lpath w =
     (case remote_files w rpath of
        None \<Rightarrow> Inl (Exn RemoteIOError (''No such file: '' @ rpath))
      | Some content \<Rightarrow>
          (case read_all c content 0 [] of
             None \<Rightarrow> Inl (Exn PyboardError ''invalid chunk'')
           | Some got \<Rightarrow> Inr (w\<lparr>local_files := (local_files w)(lpath \<mapsto> got)\<rparr>)))"

text \<open>A host with one file to upload, which holds bytes of every kind.\<close>

definition laptop :: store where
  "laptop =
     \<lparr>local_files = [''app.py'' \<mapsto> ''print(1)'' @ [CHR 0x0A, CHR 0x00, CHR 0x5C, CHR 0x27, CHR 0xFF]],
      remote_files = Map.empty\<rparr>"

text \<open>
  A command that is refused: it returns, and all it has done is show the message \<open>m\<close>.
  No method of the file explorer was called and the rest of the state is as it was.
\<close>

definition reports :: "'w shell \<Rightarrow> string \<Rightarrow> unit outcome \<times> 'w shell" where
  "reports sh m = (Return (), sh\<lparr>trace := trace sh @ [Err m]\<rparr>)"

text \<open>
  A command whose call \<open>c\<close> of the file explorer failed: it returns, having made that
  call and shown the message \<open>m\<close>; \<open>w\<close> is the world the failed round trip left.
\<close>

definition caught :: "'w shell \<Rightarrow> call \<Rightarrow> string \<Rightarrow> 'w \<Rightarrow> unit outcome \<times> 'w shell" where
  "caught sh c m w = (Return (), sh\<lparr>trace := trace sh @ [Call c, Err m], world := w\<rparr>)"

section \<open>Properties\<close>

lemmas act_defs = seq_def ret_def throw_def try_except_def emit_def when_do_def error_def
  is_open_def parse_file_names_def called_def

lemmas fe_defs = fe_pwd_def fe_cd_def fe_ls_def fe_fqn_def fe_gets_def fe_do_def fe_sysname_def

lemmas board_defs = board_def board_run_def board_listing_def at_dir_def new_shell_def
  cd_path_def startswith_def

lemma each_emit:
  "each (\<lambda>x. emit (g x)) xs sh = (Return (), sh\<lparr>trace := trace sh @ map g xs\<rparr>)"
  by (induction xs arbitrary: sh) (simp_all add: act_defs)

lemma do_open_port_aux:
  "args \<noteq> [] \<Longrightarrow>
     do_open E args =
       connect_port E
         (if startswith args ''ser:/dev/'' \<or> startswith args ''ser:COM''
             \<or> startswith args ''tn:'' \<or> startswith args ''ws:''
          then args
          else if windows E then ''ser:'' @ args else ''ser:/dev/'' @ args)"
  by (simp add: do_open_def)

lemma connect_port_calls:
  "fe sh = None \<Longrightarrow>
     Call (Connect (caching sh) port (reset sh)) \<in> set (trace (snd (connect_port E port sh)))"
  by (simp add: connect_port_def disconnect_def fe_new_def fe_sysname_def act_defs catches_def
      split: prod.splits sum.splits)

text \<open>
  Claim C2, as the code has it. For every non-empty target, \<open>open\<close> hands the connect
  step the target unchanged when it starts with \<open>ser:/dev/\<close>, \<open>ser:COM\<close>, \<open>tn:\<close> or
  \<open>ws:\<close>, and otherwise the target with \<open>ser:\<close> (on Windows) or \<open>ser:/dev/\<close> (elsewhere)
  put in front; with no session open, the explorer's constructor is called with that port.
\<close>

theorem do_open_port:
  "args \<noteq> [] \<Longrightarrow>
     do_open E args =
       connect_port E
         (if startswith args ''ser:/dev/'' \<or> startswith args ''ser:COM''
             \<or> startswith args ''tn:'' \<or> startswith args ''ws:''
          then args
          else if windows E then ''ser:'' @ args else ''ser:/dev/'' @ args)
     \<and> (fe sh = None \<longrightarrow>
          Call (Connect (caching sh)
                 (if startswith args ''ser:/dev/'' \<or> startswith args ''ser:COM''
                     \<or> startswith args ''tn:'' \<or> startswith args ''ws:''
                  then args
                  else if windows E then ''ser:'' @ args else ''ser:/dev/'' @ args)
                 (reset sh))
            \<in> set (trace (snd (do_open E args sh))))"
  using connect_port_calls [of sh] by (simp add: do_open_def)

text \<open>The theorem at a bare port name and at a telnet target, on the board.\<close>

theorem do_open_port_witness:
  "do_open board ''ttyUSB0'' = connect_port board ''ser:/dev/ttyUSB0''
   \<and> do_open board ''tn:192.168.1.1'' = connect_port board ''tn:192.168.1.1''
   \<and> Call (Connect False ''ser:/dev/ttyUSB0'' False)
        \<in> set (trace (snd (do_open board ''ttyUSB0'' (new_shell False False False 0))))"
proof -
  have n: "''ttyUSB0'' \<noteq> []" "''tn:192.168.1.1'' \<noteq> []"
    by simp_all
  have s: "\<not> startswith ''ttyUSB0'' ''ser:/dev/''" "\<not> startswith ''ttyUSB0'' ''ser:COM''"
    "\<not> startswith ''ttyUSB0'' ''tn:''" "\<not> startswith ''ttyUSB0'' ''ws:''"
    "startswith ''tn:192.168.1.1'' ''tn:''" "\<not> windows board"
    by (simp_all add: startswith_def board_def)
  have f: "fe (new_shell False False False (0::nat)) = None"
    "caching (new_shell False False False (0::nat)) = False"
    "reset (new_shell False False False (0::nat)) = False"
    by (simp_all add: new_shell_def)
  have a: "do_open board ''ttyUSB0'' = connect_port board ''ser:/dev/ttyUSB0''"
    using conjunct1 [OF do_open_port [OF n(1), of board "new_shell False False False 0"]] s
    by simp
  have b: "do_open board ''tn:192.168.1.1'' = connect_port board ''tn:192.168.1.1''"
    using conjunct1 [OF do_open_port [OF n(2), of board "new_shell False False False 0"]] s
    by simp
  have c: "Call (Connect False ''ser:/dev/ttyUSB0'' False)
        \<in> set (trace (snd (do_open board ''ttyUSB0'' (new_shell False False False 0))))"
    using conjunct2 [OF do_open_port [OF n(1), of board "new_shell False False False 0"]] s f
    by simp
  from a b c show ?thesis by blast
qed

text \<open>
  Claim C2 as stated fails: a target that carries the serial scheme \<open>ser:\<close> but names a
  port outside \<open>/dev/\<close> is not passed on unchanged; the prefix is put in front of it again.
\<close>

theorem do_open_scheme_counterexample:
  "startswith ''ser:/tmp/ttyV0'' ''ser:''
   \<and> do_open board ''ser:/tmp/ttyV0'' (new_shell False False False 0)
       \<noteq> connect_port board ''ser:/tmp/ttyV0'' (new_shell False False False 0)
   \<and> trace (snd (do_open board ''ser:/tmp/ttyV0'' (new_shell False False False 0)))
       = [Call (Connect False ''ser:/dev/ser:/tmp/ttyV0'' False), Print ''Connected to pyboard'']"
  by (simp add: do_open_def startswith_def connect_port_def disconnect_def fe_new_def
      fe_sysname_def act_defs board_def new_shell_def)

subsection \<open>Arguments are checked before anything is sent\<close>

lemma usage_cd:
  "args = [] \<or> snd (tokenize E args) \<noteq> [] \<or> length (fst (tokenize E args)) > 1 \<Longrightarrow>
     \<exists>m. do_cd E args sh = reports sh m"
  by (cases "tokenize E args"; cases "fe sh")
     (auto simp: do_cd_def reports_def act_defs catches_def)

lemma usage_md:
  "args = [] \<or> snd (tokenize E args) \<noteq> [] \<or> length (fst (tokenize E args)) > 1 \<Longrightarrow>
     \<exists>m. do_md E args sh = reports sh m"
  by (cases "tokenize E args"; cases "fe sh")
     (auto simp: do_md_def reports_def act_defs catches_def)

lemma usage_rm:
  "args = [] \<or> snd (tokenize E args) \<noteq> [] \<or> length (fst (tokenize E args)) > 1 \<Longrightarrow>
     \<exists>m. do_rm E args sh = reports sh m"
  by (cases "tokenize E args"; cases "fe sh")
     (auto simp: do_rm_def reports_def act_defs catches_def)

lemma usage_rmr:
  "args = [] \<or> snd (tokenize E args) \<noteq> [] \<or> length (fst (tokenize E args)) > 1 \<Longrightarrow>
     \<exists>m. do_rmr E args sh = reports sh m"
  by (cases "tokenize E args"; cases "fe sh")
     (auto simp: do_rmr_def reports_def act_defs catches_def)

lemma usage_mpyc:
  "args = [] \<or> snd (tokenize E args) \<noteq> [] \<or> length (fst (tokenize E args)) > 1 \<Longrightarrow>
     \<exists>m. do_mpyc E args sh = reports sh m"
  by (cases "tokenize E args")
     (auto simp: do_mpyc_def reports_def act_defs catches_def)


text \<open>
  Claim C3. For each of \<open>cd\<close>, \<open>md\<close>, \<open>rm\<close>, \<open>rmr\<close> and \<open>mpyc\<close>: when the argument is
  empty, or the tokenizer leaves a remainder, or it yields more than one token, the
  handler returns having shown one error message, and no method of the file explorer
  has been called (the trace gains that message only and the world is untouched).
\<close>

theorem single_path_usage:
  "args = [] \<or> snd (tokenize E args) \<noteq> [] \<or> length (fst (tokenize E args)) > 1 \<Longrightarrow>
     (\<exists>m. do_cd E args sh = reports sh m)
     \<and> (\<exists>m. do_md E args sh = reports sh m)
     \<and> (\<exists>m. do_rm E args sh = reports sh m)
     \<and> (\<exists>m. do_rmr E args sh = reports sh m)
     \<and> (\<exists>m. do_mpyc E args sh = reports sh m)"
  by (intro conjI usage_cd usage_md usage_rm usage_rmr usage_mpyc)

text \<open>
  The theorem on the board, at an argument of two tokens and at one the tokenizer cannot
  read to its end.
\<close>

theorem single_path_usage_witness:
  "length (fst (tokenize board ''a b'')) > 1
   \<and> ((\<exists>m. do_cd board ''a b'' (at_dir ''/'') = reports (at_dir ''/'') m)
     \<and> (\<exists>m. do_md board ''a b'' (at_dir ''/'') = reports (at_dir ''/'') m)
     \<and> (\<exists>m. do_rm board ''a b'' (at_dir ''/'') = reports (at_dir ''/'') m)
     \<and> (\<exists>m. do_rmr board ''a b'' (at_dir ''/'') = reports (at_dir ''/'') m)
     \<and> (\<exists>m. do_mpyc board ''a b'' (at_dir ''/'') = reports (at_dir ''/'') m))
   \<and> snd (tokenize board ''a \"b'') \<noteq> []
   \<and> ((\<exists>m. do_cd board ''a \"b'' (at_dir ''/'') = reports (at_dir ''/'') m)
     \<and> (\<exists>m. do_md board ''a \"b'' (at_dir ''/'') = reports (at_dir ''/'') m)
     \<and> (\<exists>m. do_rm board ''a \"b'' (at_dir ''/'') = reports (at_dir ''/'') m)
     \<and> (\<exists>m. do_rmr board ''a \"b'' (at_dir ''/'') = reports (at_dir ''/'') m)
     \<and> (\<exists>m. do_mpyc board ''a \"b'' (at_dir ''/'') = reports (at_dir ''/'') m))"
proof -
  have t: "length (fst (tokenize board ''a b'')) > 1"
    by (simp add: board_def)
  then have d: "''a b'' = [] \<or> snd (tokenize board ''a b'') \<noteq> []
      \<or> length (fst (tokenize board ''a b'')) > 1"
    by (intro disjI2)
  have r: "snd (tokenize board ''a \"b'') \<noteq> []"
    by (simp add: board_def)
  then have e: "''a \"b'' = [] \<or> snd (tokenize board ''a \"b'') \<noteq> []
      \<or> length (fst (tokenize board ''a \"b'')) > 1"
    by (intro disjI2 disjI1)
  show ?thesis
    by (intro conjI [OF t] conjI [OF single_path_usage [OF d, of "at_dir ''/''"]]
        conjI [OF r] single_path_usage [OF e, of "at_dir ''/''"])
qed

subsection \<open>Closing\<close>

text \<open>
  Claim C6. With no session open, \<open>close\<close> and \<open>exit\<close> return and change nothing. When
  the explorer's \<open>close\<close> succeeds, the disconnect clears the session (and resets the
  prompt), so that a second disconnect, \<open>close\<close> or \<open>exit\<close> returns and changes nothing.
\<close>

theorem close_is_safe:
  "(fe sh = None \<longrightarrow> do_close E args sh = (Return (), sh) \<and> do_exit E args sh = (Return True, sh))
   \<and> (fe sh = Some f \<and> run E Close (dir f) (world sh) = (None, w) \<longrightarrow>
        disconnect E sh =
          (Return (), sh\<lparr>fe := None, prompt := prompt_text (color sh) ''/'',
                         trace := trace sh @ [Call Close], world := w\<rparr>)
        \<and> disconnect E (snd (disconnect E sh)) = (Return (), snd (disconnect E sh))
        \<and> do_close E args (snd (do_close E args sh)) = (Return (), snd (do_close E args sh))
        \<and> do_exit E args (snd (do_exit E args sh)) = (Return True, snd (do_exit E args sh)))"
  by (simp add: do_close_def do_exit_def disconnect_def fe_do_def set_prompt_path_def act_defs)

text \<open>The theorem on the board: with no session, and with a session in \<open>/lib\<close>.\<close>

theorem close_is_safe_witness:
  "fe (new_shell False False False (0::nat)) = None
   \<and> do_close board [] (new_shell False False False 0) = (Return (), new_shell False False False 0)
   \<and> do_exit board [] (new_shell False False False 0) = (Return True, new_shell False False False 0)
   \<and> fe (at_dir ''/lib'') = Some \<lparr>dir = ''/lib'', sysname = ''pyboard''\<rparr>
   \<and> run board Close ''/lib'' (world (at_dir ''/lib'')) = (None, 1)
   \<and> fe (snd (disconnect board (at_dir ''/lib''))) = None
   \<and> disconnect board (snd (disconnect board (at_dir ''/lib'')))
       = (Return (), snd (disconnect board (at_dir ''/lib'')))
   \<and> do_close board [] (snd (do_close board [] (at_dir ''/lib'')))
       = (Return (), snd (do_close board [] (at_dir ''/lib'')))"
proof -
  let ?n = "new_shell False False False (0::nat)"
  let ?f = "\<lparr>dir = ''/lib'', sysname = ''pyboard''\<rparr>"
  have a: "fe ?n = None"
    by (simp add: new_shell_def)
  have b: "fe (at_dir ''/lib'') = Some ?f"
    by (simp add: at_dir_def)
  have c: "run board Close (dir ?f) (world (at_dir ''/lib'')) = (None, 1)"
    by (simp add: board_def board_run_def at_dir_def new_shell_def)
  note n = close_is_safe [of ?n board "[]" ?f 1, THEN conjunct1, rule_format, OF a]
  note s = close_is_safe [of "at_dir ''/lib''" board "[]" ?f 1, THEN conjunct2, rule_format, OF conjI [OF b c]]
  have d: "fe (snd (disconnect board (at_dir ''/lib''))) = None"
    using s by simp
  have c': "run board Close ''/lib'' (world (at_dir ''/lib'')) = (None, 1)"
    using c by simp
  from a b c' d n s show ?thesis by blast
qed


subsection \<open>Commands without a session\<close>

lemma no_session:
  assumes "fe sh = None"
  shows "do_ls E args sh = reports sh not_connected"
    and "do_tree E args sh = reports sh not_connected"
    and "do_pwd E args sh = reports sh not_connected"
    and "do_cd E args sh = reports sh (if args = [] then ''Missing argument: <REMOTE DIR>'' else not_connected)"
    and "do_md E args sh = reports sh (if args = [] then ''Missing argument: <REMOTE DIR>'' else not_connected)"
    and "do_put E args sh = reports sh (if args = [] then ''Missing arguments: <LOCAL FILE> [<REMOTE FILE>]'' else not_connected)"
    and "do_putr E args sh = reports sh (if args = [] then ''Missing arguments: <LOCAL DIRECTORY> [<REMOTE DIRECTORY>]'' else not_connected)"
    and "do_mput E args sh = reports sh (if args = [] then ''Missing argument: <SELECTION REGEX>'' else not_connected)"
    and "do_get E args sh = reports sh (if args = [] then ''Missing arguments: <REMOTE FILE> [<LOCAL FILE>]'' else not_connected)"
    and "do_getr E args sh = reports sh (if args = [] then ''Missing arguments: <REMOTE DIRECTORY> [<LOCAL DIRECTORY>]'' else not_connected)"
    and "do_mget E args sh = reports sh (if args = [] then ''Missing argument: <SELECTION REGEX>'' else not_connected)"
    and "do_rm E args sh = reports sh (if args = [] then ''Missing argument: <REMOTE FILE>'' else not_connected)"
    and "do_rmr E args sh = reports sh (if args = [] then ''Missing argument: <REMOTE DIRECTORY>'' else not_connected)"
    and "do_mrm E args sh = reports sh (if args = [] then ''Missing argument: <SELECTION REGEX>'' else not_connected)"
    and "do_cat E args sh = reports sh (if args = [] then ''Missing argument: <REMOTE FILE>'' else not_connected)"
    and "do_exec E args sh = reports sh (if args = [] then ''Missing argument: <STATEMENT>'' else not_connected)"
    and "do_repl E args sh =
           (case old_pyserial E of
              Inl e \<Rightarrow> (Raise e, sh)
            | Inr old \<Rightarrow>
                reports sh (if old then ''REPL needs PySerial version >= 2.7, found '' @ serial_VERSION E
                            else not_connected))"
  using assms
  by (simp_all add: do_ls_def do_tree_def do_pwd_def do_cd_def do_md_def do_put_def do_putr_def
      do_mput_def do_get_def do_getr_def do_mget_def do_rm_def do_rmr_def do_mrm_def do_cat_def
      do_exec_def do_repl_def reports_def act_defs split: sum.splits)

text \<open>
  Claim C9, as the code has it. With no session open, no command that needs one calls a
  method of the file explorer. Each of them but \<open>repl\<close> returns having shown one
  message: \<open>Not connected to device. Use 'open' first.\<close> once the command's earlier
  check has passed (a non-empty argument, for the commands that take one), and that
  check's own message otherwise. \<open>repl\<close> reads the PySerial version first: when the
  version text reads as numbers it returns with one message too (the version is too old,
  or the device is not connected); when the conversion raises, the exception leaves the
  handler with nothing shown and the state as it was.
\<close>

theorem no_session_no_remote:
  "fe sh = None \<Longrightarrow>
     do_ls E args sh = reports sh not_connected
     \<and> do_tree E args sh = reports sh not_connected
     \<and> do_pwd E args sh = reports sh not_connected
     \<and> do_cd E args sh = reports sh (if args = [] then ''Missing argument: <REMOTE DIR>'' else not_connected)
     \<and> do_md E args sh = reports sh (if args = [] then ''Missing argument: <REMOTE DIR>'' else not_connected)
     \<and> do_put E args sh = reports sh (if args = [] then ''Missing arguments: <LOCAL FILE> [<REMOTE FILE>]'' else not_connected)
     \<and> do_putr E args sh = reports sh (if args = [] then ''Missing arguments: <LOCAL DIRECTORY> [<REMOTE DIRECTORY>]'' else not_connected)
     \<and> do_mput E args sh = reports sh (if args = [] then ''Missing argument: <SELECTION REGEX>'' else not_connected)
     \<and> do_get E args sh = reports sh (if args = [] then ''Missing arguments: <REMOTE FILE> [<LOCAL FILE>]'' else not_connected)
     \<and> do_getr E args sh = reports sh (if args = [] then ''Missing arguments: <REMOTE DIRECTORY> [<LOCAL DIRECTORY>]'' else not_connected)
     \<and> do_mget E args sh = reports sh (if args = [] then ''Missing argument: <SELECTION REGEX>'' else not_connected)
     \<and> do_rm E args sh = reports sh (if args = [] then ''Missing argument: <REMOTE FILE>'' else not_connected)
     \<and> do_rmr E args sh = reports sh (if args = [] then ''Missing argument: <REMOTE DIRECTORY>'' else not_connected)
     \<and> do_mrm E args sh = reports sh (if args = [] then ''Missing argument: <SELECTION REGEX>'' else not_connected)
     \<and> do_cat E args sh = reports sh (if args = [] then ''Missing argument: <REMOTE FILE>'' else not_connected)
     \<and> do_exec E args sh = reports sh (if args = [] then ''Missing argument: <STATEMENT>'' else not_connected)
     \<and> do_repl E args sh =
           (case old_pyserial E of
              Inl e \<Rightarrow> (Raise e, sh)
            | Inr old \<Rightarrow>
                reports sh (if old then ''REPL needs PySerial version >= 2.7, found '' @ serial_VERSION E
                            else not_connected))"
  by (intro conjI no_session)

text \<open>The theorem on a fresh shell, at the argument \<open>lib\<close>.\<close>

theorem no_session_no_remote_witness:
  "fe (new_shell False False False (0::nat)) = None
   \<and> do_ls board ''lib'' (new_shell False False False 0) = reports (new_shell False False False 0) not_connected
   \<and> do_cd board ''lib'' (new_shell False False False 0) = reports (new_shell False False False 0) not_connected
   \<and> do_exec board ''lib'' (new_shell False False False 0) = reports (new_shell False False False 0) not_connected
   \<and> do_repl board ''lib'' (new_shell False False False 0) = reports (new_shell False False False 0) not_connected
   \<and> do_repl (board\<lparr>serial_VERSION := ''2.6''\<rparr>) ''lib'' (new_shell False False False 0)
       = reports (new_shell False False False 0) ''REPL needs PySerial version >= 2.7, found 2.6''
   \<and> do_repl (board\<lparr>serial_VERSION := ''2.5-rc1''\<rparr>) ''lib'' (new_shell False False False 0)
       = (Raise (Exn ValueError (''invalid literal for int() with base 10: '' @ quote @ ''5-rc1'' @ quote)),
          new_shell False False False 0)
   \<and> do_repl (board\<lparr>serial_VERSION := ''2''\<rparr>) ''lib'' (new_shell False False False 0)
       = (Raise (Exn IndexError ''list index out of range''), new_shell False False False 0)"
proof -
  let ?n = "new_shell False False False (0::nat)"
  have a: "fe ?n = None"
    by (simp add: new_shell_def)
  have p: "old_pyserial board = Inr False"
    "old_pyserial (board\<lparr>serial_VERSION := ''2.6''\<rparr>) = Inr True"
    "old_pyserial (board\<lparr>serial_VERSION := ''2.5-rc1''\<rparr>)
       = Inl (Exn ValueError (''invalid literal for int() with base 10: '' @ quote @ ''5-rc1'' @ quote))"
    "old_pyserial (board\<lparr>serial_VERSION := ''2''\<rparr>) = Inl (Exn IndexError ''list index out of range'')"
    by (simp_all add: old_pyserial_def board_def digits_int_def)
  have v: "serial_VERSION (board\<lparr>serial_VERSION := ''2.6''\<rparr>) = ''2.6''"
    by simp
  note b = no_session_no_remote [OF a, of board "''lib''"]
  have 1: "do_ls board ''lib'' ?n = reports ?n not_connected"
    using b by (elim conjE)
  have 2: "do_cd board ''lib'' ?n = reports ?n not_connected"
    using b by (elim conjE) simp
  have 3: "do_exec board ''lib'' ?n = reports ?n not_connected"
    using b by (elim conjE) simp
  have 4: "do_repl board ''lib'' ?n = reports ?n not_connected"
    using b by (elim conjE) (simp add: p)
  have 5: "do_repl (board\<lparr>serial_VERSION := ''2.6''\<rparr>) ''lib'' ?n
       = reports ?n ''REPL needs PySerial version >= 2.7, found 2.6''"
    using no_session_no_remote [OF a, of "board\<lparr>serial_VERSION := ''2.6''\<rparr>" "''lib''"]
    by (elim conjE) (simp add: p v)
  have 6: "do_repl (board\<lparr>serial_VERSION := ''2.5-rc1''\<rparr>) ''lib'' ?n
       = (Raise (Exn ValueError (''invalid literal for int() with base 10: '' @ quote @ ''5-rc1'' @ quote)), ?n)"
    using no_session_no_remote [OF a, of "board\<lparr>serial_VERSION := ''2.5-rc1''\<rparr>" "''lib''"]
    by (elim conjE) (simp add: p)
  have 7: "do_repl (board\<lparr>serial_VERSION := ''2''\<rparr>) ''lib'' ?n
       = (Raise (Exn IndexError ''list index out of range''), ?n)"
    using no_session_no_remote [OF a, of "board\<lparr>serial_VERSION := ''2''\<rparr>" "''lib''"]
    by (elim conjE) (simp add: p)
  from a 1 2 3 4 5 6 7 show ?thesis
    by (intro conjI)
qed

text \<open>
  Claim C9 as stated fails: \<open>cd\<close> without an argument and without a session shows
  \<open>Missing argument: <REMOTE DIR>\<close> and never the message about the connection.
\<close>

theorem not_connected_counterexample:
  "fe (new_shell False False False (0::nat)) = None
   \<and> do_cd board [] (new_shell False False False 0)
       = (Return (), (new_shell False False False 0)\<lparr>trace := [Err ''Missing argument: <REMOTE DIR>'']\<rparr>)
   \<and> Err not_connected \<notin> set (trace (snd (do_cd board [] (new_shell False False False 0))))"
  by (simp add: do_cd_def act_defs new_shell_def not_connected_def)

subsection \<open>Changing the directory\<close>

lemma cd_ok:
  "fe sh = Some f \<Longrightarrow> args \<noteq> [] \<Longrightarrow> tokenize E args = ([t], []) \<Longrightarrow>
   run E (Cd (cd_path E f t)) (dir f) (world sh) = (None, w) \<Longrightarrow>
     do_cd E args sh =
       (Return (), sh\<lparr>fe := Some (f\<lparr>dir := cd_path E f t\<rparr>),
                      prompt := prompt_text (color sh) (cd_path E f t),
                      trace := trace sh @ [Call (Cd t), Call Pwd], world := w\<rparr>)"
  by (simp add: do_cd_def act_defs fe_cd_def set_prompt_path_def fe_pwd_def)

lemma cd_failed:
  "fe sh = Some f \<Longrightarrow> args \<noteq> [] \<Longrightarrow> tokenize E args = ([t], []) \<Longrightarrow>
   run E (Cd (cd_path E f t)) (dir f) (world sh) = (Some e, w) \<Longrightarrow>
   cls e = IOError \<or> cls e = RemoteIOError \<Longrightarrow>
     do_cd E args sh =
       (Return (), sh\<lparr>trace := trace sh @ [Call (Cd t), Err (msg e)], world := w\<rparr>)"
  by (auto simp add: do_cd_def act_defs fe_cd_def catches_def)

lemma cd_only:
  assumes ch: "fe (snd (do_cd E args sh)) \<noteq> fe sh \<or> prompt (snd (do_cd E args sh)) \<noteq> prompt sh"
  shows "\<exists>f t w. fe sh = Some f \<and> args \<noteq> [] \<and> tokenize E args = ([t], [])
       \<and> run E (Cd (cd_path E f t)) (dir f) (world sh) = (None, w)"
proof (cases "fe sh")
  case None
  then have "fe (snd (do_cd E args sh)) = fe sh \<and> prompt (snd (do_cd E args sh)) = prompt sh"
    by (simp add: do_cd_def act_defs)
  with ch show ?thesis
    by simp
next
  case (Some f)
  obtain ts r where tok: "tokenize E args = (ts, r)"
    by (cases "tokenize E args")
  obtain res w where rn: "run E (Cd (cd_path E f (ts ! 0))) (dir f) (world sh) = (res, w)"
    by (cases "run E (Cd (cd_path E f (ts ! 0))) (dir f) (world sh)")
  show ?thesis
  proof (cases "args \<noteq> [] \<and> r = [] \<and> length ts = 1 \<and> res = None")
    case True
    then obtain t where "ts = [t]"
      by (cases ts) auto
    with True Some tok rn show ?thesis
      by auto
  next
    case False
    with Some tok rn have "fe (snd (do_cd E args sh)) = fe sh \<and> prompt (snd (do_cd E args sh)) = prompt sh"
      by (cases ts; cases "tl ts"; cases res)
         (auto simp: do_cd_def act_defs fe_cd_def catches_def)
    with ch show ?thesis
      by simp
  qed
qed


text \<open>
  Claim C1. When \<open>cd\<close> reaches the file explorer with its one path and the remote change
  of directory succeeds, the tracked directory becomes that path and the prompt is rebuilt
  from it. When the remote change fails with an \<open>IOError\<close> or a \<open>RemoteIOError\<close>, the
  handler returns after showing the error's text, and nothing but the trace and the world
  has changed. And whenever the tracked directory or the prompt differs after the call,
  the remote change of directory was made and succeeded.
\<close>

theorem cd_tracks_success:
  "(fe sh = Some f \<and> args \<noteq> [] \<and> tokenize E args = ([t], [])
      \<and> run E (Cd (cd_path E f t)) (dir f) (world sh) = (None, w) \<longrightarrow>
      do_cd E args sh =
        (Return (), sh\<lparr>fe := Some (f\<lparr>dir := cd_path E f t\<rparr>),
                       prompt := prompt_text (color sh) (cd_path E f t),
                       trace := trace sh @ [Call (Cd t), Call Pwd], world := w\<rparr>))
   \<and> (fe sh = Some f \<and> args \<noteq> [] \<and> tokenize E args = ([t], [])
      \<and> run E (Cd (cd_path E f t)) (dir f) (world sh) = (Some e, w)
      \<and> (cls e = IOError \<or> cls e = RemoteIOError) \<longrightarrow>
      do_cd E args sh =
        (Return (), sh\<lparr>trace := trace sh @ [Call (Cd t), Err (msg e)], world := w\<rparr>))
   \<and> (fe (snd (do_cd E args sh)) \<noteq> fe sh \<or> prompt (snd (do_cd E args sh)) \<noteq> prompt sh \<longrightarrow>
      (\<exists>f t w. fe sh = Some f \<and> args \<noteq> [] \<and> tokenize E args = ([t], [])
         \<and> run E (Cd (cd_path E f t)) (dir f) (world sh) = (None, w)))"
  using cd_ok [of sh f args E t w] cd_failed [of sh f args E t e w] cd_only [of E args sh]
  by blast

text \<open>The theorem on the board: into \<open>lib\<close>, and into a directory that does not exist.\<close>

theorem cd_tracks_success_witness:
  "do_cd board ''lib'' (at_dir ''/'') =
     (Return (), (at_dir ''/'')\<lparr>fe := Some \<lparr>dir = ''/lib'', sysname = ''pyboard''\<rparr>,
                   prompt := ''mpfs [/lib]> '', trace := [Call (Cd ''lib''), Call Pwd], world := 1\<rparr>)
   \<and> do_cd board ''nope'' (at_dir ''/lib'') =
     (Return (), (at_dir ''/lib'')\<lparr>trace := [Call (Cd ''nope''), Err ''No such directory: /lib/nope''],
                   world := 1\<rparr>)
   \<and> fe (snd (do_cd board ''nope'' (at_dir ''/lib''))) = fe (at_dir ''/lib'')
   \<and> prompt (snd (do_cd board ''nope'' (at_dir ''/lib''))) = prompt (at_dir ''/lib'')"
proof -
  let ?root = "\<lparr>dir = ''/'', sysname = ''pyboard''\<rparr>"
  let ?lib = "\<lparr>dir = ''/lib'', sysname = ''pyboard''\<rparr>"
  let ?e = "Exn RemoteIOError ''No such directory: /lib/nope''"
  have a: "fe (at_dir ''/'') = Some ?root \<and> ''lib'' \<noteq> [] \<and> tokenize board ''lib'' = ([''lib''], [])
      \<and> run board (Cd (cd_path board ?root ''lib'')) (dir ?root) (world (at_dir ''/'')) = (None, 1)"
    by (simp add: at_dir_def new_shell_def board_def board_run_def cd_path_def startswith_def)
  have b: "fe (at_dir ''/lib'') = Some ?lib \<and> ''nope'' \<noteq> [] \<and> tokenize board ''nope'' = ([''nope''], [])
      \<and> run board (Cd (cd_path board ?lib ''nope'')) (dir ?lib) (world (at_dir ''/lib'')) = (Some ?e, 1)
      \<and> (cls ?e = IOError \<or> cls ?e = RemoteIOError)"
    by (simp add: at_dir_def new_shell_def board_def board_run_def cd_path_def startswith_def)
  have c: "cd_path board ?root ''lib'' = ''/lib''" "color (at_dir d) = False"
    "trace (at_dir d) = []" for d
    by (simp_all add: cd_path_def startswith_def board_def at_dir_def new_shell_def)
  have p: "prompt_text False ''/lib'' = ''mpfs [/lib]> ''"
    by (simp add: prompt_text_def)
  note ok = cd_tracks_success [of "at_dir ''/''" ?root "''lib''" board "''lib''" 1 ?e,
      THEN conjunct1, rule_format, OF a]
  note ko = cd_tracks_success [of "at_dir ''/lib''" ?lib "''nope''" board "''nope''" 1 ?e,
      THEN conjunct2, THEN conjunct1, rule_format, OF b]
  have 1: "do_cd board ''lib'' (at_dir ''/'') =
     (Return (), (at_dir ''/'')\<lparr>fe := Some \<lparr>dir = ''/lib'', sysname = ''pyboard''\<rparr>,
                   prompt := ''mpfs [/lib]> '', trace := [Call (Cd ''lib''), Call Pwd], world := 1\<rparr>)"
    using ok by (simp add: c p)
  have 2: "do_cd board ''nope'' (at_dir ''/lib'') =
     (Return (), (at_dir ''/lib'')\<lparr>trace := [Call (Cd ''nope''), Err ''No such directory: /lib/nope''],
                   world := 1\<rparr>)"
    using ko by (simp add: c)
  have 3: "fe (snd (do_cd board ''nope'' (at_dir ''/lib''))) = fe (at_dir ''/lib'')"
    "prompt (snd (do_cd board ''nope'' (at_dir ''/lib''))) = prompt (at_dir ''/lib'')"
    by (simp_all add: 2)
  from 1 2 3 show ?thesis
    by blast
qed

subsection \<open>Listing leaves the directory where it was\<close>
















subsection \<open>Executing a statement\<close>

text \<open>
  Claim C5 fails on the code. When the statement is sent, the stream decodes and the
  result arrives, \<open>exec\<close> returns without a message if stderr is empty; if stderr is not
  empty, \<open>__error\<close> is given the byte sequence itself, the concatenation with text
  raises \<open>TypeError\<close>, no message is shown and the exception leaves the handler.
\<close>

theorem exec_stderr_raises:
  assumes "fe sh = Some f" and "args \<noteq> []"
    and "run E (ExecRawNoFollow (args @ nl)) (dir f) (world sh) = (None, w1)"
    and "follow E w1 = ((frags, Inr (out, err)), w2)"
    and "\<forall>c\<in>set frags. utf8 E c"
  shows "do_exec E args sh =
           (if err \<noteq> [] then Raise concat_error else Return (),
            sh\<lparr>trace := trace sh @ [Call (ExecRawNoFollow (args @ nl)), Call Follow]
                     @ map (\<lambda>c. Write (strip c [CHR 0x04])) frags,
               world := w2\<rparr>)"
proof -
  have e: "each (data_consumer E) frags s
      = (Return (), s\<lparr>trace := trace s @ map (\<lambda>c. Write (strip c [CHR 0x04])) frags\<rparr>)" for s :: "'a shell"
    using assms(5) by (induction frags arbitrary: s) (simp_all add: data_consumer_def act_defs)
  show ?thesis
    using assms(1-4)
    by (simp add: do_exec_def act_defs fe_do_def fe_follow_def e concat_error_def catches_def)
qed

text \<open>The theorem on the board, whose statement fails with a division by zero.\<close>

theorem exec_stderr_raises_witness:
  "do_exec board ''1/0'' (at_dir ''/'') =
     (Raise concat_error,
      (at_dir ''/'')\<lparr>trace := [Call (ExecRawNoFollow (''1/0'' @ nl)), Call Follow], world := 2\<rparr>)"
proof -
  let ?root = "\<lparr>dir = ''/'', sysname = ''pyboard''\<rparr>"
  have a: "fe (at_dir ''/'') = Some ?root" "''1/0'' \<noteq> []"
    "run board (ExecRawNoFollow (''1/0'' @ nl)) (dir ?root) (world (at_dir ''/'')) = (None, 1)"
    "follow board 1 = (([], Inr ([], ''ZeroDivisionError: division by zero'')), 2)"
    "\<forall>c\<in>set []. utf8 board c"
    by (simp_all add: board_defs)
  have t: "trace (at_dir ''/'') = []"
    by (simp add: at_dir_def new_shell_def)
  show ?thesis
    using exec_stderr_raises [OF a] by (simp add: t)
qed

subsection \<open>Errors of the file explorer\<close>

lemma try_fe_do:
  "fe sh = Some f \<Longrightarrow> run E c (dir f) (world sh) = (Some e, w) \<Longrightarrow> catches E IOError e \<Longrightarrow>
     try_except E (fe_do E a c) ((IOError, \<lambda>e. error (Str (msg e))) # hs) sh = caught sh c (msg e) w"
  by (simp add: try_except_def fe_do_def caught_def act_defs)

lemma try_fe_do_pyb:
  "fe sh = Some f \<Longrightarrow> run E c (dir f) (world sh) = (Some e, w) \<Longrightarrow> cls e = PyboardError \<Longrightarrow>
     try_except E (fe_do E a c) [(IOError, \<lambda>e. error (Str (msg e))), (PyboardError, \<lambda>e. unable)] sh
       = caught sh c (''Unable to send request to '' @ sysname f) w"
  by (simp add: try_except_def fe_do_def caught_def act_defs catches_def unable_def fe_sysname_def)

lemma caught_cd:
  "fe sh = Some f \<Longrightarrow> args \<noteq> [] \<Longrightarrow> tokenize E args = ([t], []) \<Longrightarrow>
   run E (Cd (cd_path E f t)) (dir f) (world sh) = (Some e, w) \<Longrightarrow>
   catches E IOError e \<or> cls e = RemoteIOError \<Longrightarrow>
     do_cd E args sh = caught sh (Cd t) (msg e) w"
  by (auto simp add: do_cd_def act_defs fe_cd_def catches_def caught_def)

lemma caught_md:
  "fe sh = Some f \<Longrightarrow> args \<noteq> [] \<Longrightarrow> tokenize E args = ([t], []) \<Longrightarrow>
   run E (Md t) (dir f) (world sh) = (Some e, w) \<Longrightarrow> catches E IOError e \<Longrightarrow>
     do_md E args sh = caught sh (Md t) (msg e) w"
  by (simp add: do_md_def act_defs fe_do_def caught_def)

lemma caught_put:
  "fe sh = Some f \<Longrightarrow> args \<noteq> [] \<Longrightarrow> tokenize E args = (ts, []) \<Longrightarrow> ts \<noteq> [] \<Longrightarrow> length ts \<le> 2 \<Longrightarrow>
   run E (Put (ts ! 0) (dst ts)) (dir f) (world sh) = (Some e, w) \<Longrightarrow> catches E IOError e \<Longrightarrow>
     do_put E args sh = caught sh (Put (ts ! 0) (dst ts)) (msg e) w"
  using try_fe_do [of sh f E "Put (ts ! 0) (dst ts)" e w "''put''" "[]"]
  by (simp add: do_put_def seq_def is_open_def parse_file_names_def ret_def)

lemma caught_putr:
  "fe sh = Some f \<Longrightarrow> args \<noteq> [] \<Longrightarrow> tokenize E args = (ts, []) \<Longrightarrow> ts \<noteq> [] \<Longrightarrow> length ts \<le> 2 \<Longrightarrow>
   run E (Putr (ts ! 0) (dst ts)) (dir f) (world sh) = (Some e, w) \<Longrightarrow> catches E IOError e \<Longrightarrow>
     do_putr E args sh = caught sh (Putr (ts ! 0) (dst ts)) (msg e) w"
  using try_fe_do [of sh f E "Putr (ts ! 0) (dst ts)" e w "''putr''" "[]"]
  by (simp add: do_putr_def seq_def is_open_def parse_file_names_def ret_def)

lemma caught_get:
  "fe sh = Some f \<Longrightarrow> args \<noteq> [] \<Longrightarrow> tokenize E args = (ts, []) \<Longrightarrow> ts \<noteq> [] \<Longrightarrow> length ts \<le> 2 \<Longrightarrow>
   run E (Get (ts ! 0) (dst ts)) (dir f) (world sh) = (Some e, w) \<Longrightarrow> catches E IOError e \<Longrightarrow>
     do_get E args sh = caught sh (Get (ts ! 0) (dst ts)) (msg e) w"
  using try_fe_do [of sh f E "Get (ts ! 0) (dst ts)" e w "''get''" "[]"]
  by (simp add: do_get_def seq_def is_open_def parse_file_names_def ret_def)

lemma caught_getr:
  "fe sh = Some f \<Longrightarrow> args \<noteq> [] \<Longrightarrow> tokenize E args = (ts, []) \<Longrightarrow> ts \<noteq> [] \<Longrightarrow> length ts \<le> 2 \<Longrightarrow>
   run E (Getr (ts ! 0) (dst ts)) (dir f) (world sh) = (Some e, w) \<Longrightarrow> catches E IOError e \<Longrightarrow>
     do_getr E args sh = caught sh (Getr (ts ! 0) (dst ts)) (msg e) w"
  using try_fe_do [of sh f E "Getr (ts ! 0) (dst ts)" e w "''getr''" "[]"]
  by (simp add: do_getr_def seq_def is_open_def parse_file_names_def ret_def)

lemma caught_mput:
  "fe sh = Some f \<Longrightarrow> args \<noteq> [] \<Longrightarrow>
   run E (Mput (getcwd E (world sh)) args) (dir f) (world sh) = (Some e, w) \<Longrightarrow> catches E IOError e \<Longrightarrow>
     do_mput E args sh = caught sh (Mput (getcwd E (world sh)) args) (msg e) w"
  by (simp add: do_mput_def act_defs fe_do_def caught_def)

lemma caught_mget:
  "fe sh = Some f \<Longrightarrow> args \<noteq> [] \<Longrightarrow>
   run E (Mget (getcwd E (world sh)) args) (dir f) (world sh) = (Some e, w) \<Longrightarrow> catches E IOError e \<Longrightarrow>
     do_mget E args sh = caught sh (Mget (getcwd E (world sh)) args) (msg e) w"
  by (simp add: do_mget_def act_defs fe_do_def caught_def)

lemma caught_mrm:
  "fe sh = Some f \<Longrightarrow> args \<noteq> [] \<Longrightarrow>
   run E (Mrm args) (dir f) (world sh) = (Some e, w) \<Longrightarrow> catches E IOError e \<Longrightarrow>
     do_mrm E args sh = caught sh (Mrm args) (msg e) w"
  by (simp add: do_mrm_def act_defs fe_do_def caught_def)

lemma caught_rm:
  "fe sh = Some f \<Longrightarrow> args \<noteq> [] \<Longrightarrow> tokenize E args = ([t], []) \<Longrightarrow>
   run E (Rm t) (dir f) (world sh) = (Some e, w) \<Longrightarrow> catches E IOError e \<Longrightarrow>
     do_rm E args sh = caught sh (Rm t) (msg e) w"
  using try_fe_do [of sh f E "Rm t" e w "''rm''" "[(PyboardError, \<lambda>e. unable)]"]
  by (simp add: do_rm_def seq_def is_open_def parse_file_names_def ret_def)

lemma caught_rm_pyb:
  "fe sh = Some f \<Longrightarrow> args \<noteq> [] \<Longrightarrow> tokenize E args = ([t], []) \<Longrightarrow>
   run E (Rm t) (dir f) (world sh) = (Some e, w) \<Longrightarrow> cls e = PyboardError \<Longrightarrow>
     do_rm E args sh = caught sh (Rm t) (''Unable to send request to '' @ sysname f) w"
  using try_fe_do_pyb [of sh f E "Rm t" e w "''rm''"]
  by (simp add: do_rm_def seq_def is_open_def parse_file_names_def ret_def)

lemma caught_rmr:
  "fe sh = Some f \<Longrightarrow> args \<noteq> [] \<Longrightarrow> tokenize E args = ([t], []) \<Longrightarrow>
   run E (Rmr t) (dir f) (world sh) = (Some e, w) \<Longrightarrow> catches E IOError e \<Longrightarrow>
     do_rmr E args sh = caught sh (Rmr t) (msg e) w"
  using try_fe_do [of sh f E "Rmr t" e w "''rmr''" "[(PyboardError, \<lambda>e. unable)]"]
  by (simp add: do_rmr_def seq_def is_open_def parse_file_names_def ret_def)

lemma caught_rmr_pyb:
  "fe sh = Some f \<Longrightarrow> args \<noteq> [] \<Longrightarrow> tokenize E args = ([t], []) \<Longrightarrow>
   run E (Rmr t) (dir f) (world sh) = (Some e, w) \<Longrightarrow> cls e = PyboardError \<Longrightarrow>
     do_rmr E args sh = caught sh (Rmr t) (''Unable to send request to '' @ sysname f) w"
  using try_fe_do_pyb [of sh f E "Rmr t" e w "''rmr''"]
  by (simp add: do_rmr_def seq_def is_open_def parse_file_names_def ret_def)

lemma caught_cat:
  "fe sh = Some f \<Longrightarrow> args \<noteq> [] \<Longrightarrow> tokenize E args = ([t], []) \<Longrightarrow>
   contents E t (dir f) (world sh) = (Inl e, w) \<Longrightarrow> catches E IOError e \<Longrightarrow>
     do_cat E args sh = caught sh (Gets t) (msg e) w"
  by (simp add: do_cat_def act_defs fe_gets_def caught_def)

lemma caught_mpyc:
  "fe sh = Some f \<Longrightarrow> args \<noteq> [] \<Longrightarrow> tokenize E args = ([t], []) \<Longrightarrow>
   run E (MpyCross t) (dir f) (world sh) = (Some e, w) \<Longrightarrow> catches E IOError e \<Longrightarrow>
     do_mpyc E args sh = caught sh (MpyCross t) (msg e) w"
  using try_fe_do [of sh f E "MpyCross t" e w "''mpy_cross''" "[]"]
  by (simp add: do_mpyc_def seq_def parse_file_names_def ret_def)

lemma caught_ls:
  "fe sh = Some f \<Longrightarrow> listing E (dir f) (world sh) = (Inl e, w) \<Longrightarrow> catches E IOError e \<Longrightarrow>
     do_ls E [] sh = (Return (), sh\<lparr>trace := trace sh @ [Call Pwd, Call Ls, Err (msg e)], world := w\<rparr>)"
  by (simp add: do_ls_def ls_try_def act_defs fe_defs)


text \<open>
  Claim C7, as the code has it. With a session open and a non-empty argument, an
  exception that is an \<open>IOError\<close> (for \<open>cd\<close> also any \<open>RemoteIOError\<close>), raised by the
  operation that \<open>cd\<close>, \<open>md\<close>, \<open>put\<close>, \<open>putr\<close>, \<open>mput\<close>, \<open>get\<close>, \<open>getr\<close>, \<open>mget\<close>,
  \<open>rm\<close>, \<open>rmr\<close>, \<open>mrm\<close>, \<open>cat\<close> or \<open>mpyc\<close> delegates to, is caught: the handler
  shows the error's text and returns. \<open>rm\<close> and \<open>rmr\<close> catch a \<open>PyboardError\<close> too and
  show that the request could not be sent. \<open>ls\<close> without a directory catches an
  \<open>IOError\<close> of the listing in the same way.
\<close>

theorem io_errors_are_reported:
  assumes f: "fe sh = Some f" and a: "args \<noteq> []"
  shows
   "(tokenize E args = ([t], []) \<and> run E (Cd (cd_path E f t)) (dir f) (world sh) = (Some e, w)
       \<and> (catches E IOError e \<or> cls e = RemoteIOError) \<longrightarrow>
       do_cd E args sh = caught sh (Cd t) (msg e) w)
    \<and> (tokenize E args = ([t], []) \<and> run E (Md t) (dir f) (world sh) = (Some e, w)
       \<and> catches E IOError e \<longrightarrow>
       do_md E args sh = caught sh (Md t) (msg e) w)
    \<and> (tokenize E args = (ts, []) \<and> ts \<noteq> [] \<and> length ts \<le> 2
       \<and> run E (Put (ts ! 0) (dst ts)) (dir f) (world sh) = (Some e, w) \<and> catches E IOError e \<longrightarrow>
       do_put E args sh = caught sh (Put (ts ! 0) (dst ts)) (msg e) w)
    \<and> (tokenize E args = (ts, []) \<and> ts \<noteq> [] \<and> length ts \<le> 2
       \<and> run E (Putr (ts ! 0) (dst ts)) (dir f) (world sh) = (Some e, w) \<and> catches E IOError e \<longrightarrow>
       do_putr E args sh = caught sh (Putr (ts ! 0) (dst ts)) (msg e) w)
    \<and> (run E (Mput (getcwd E (world sh)) args) (dir f) (world sh) = (Some e, w)
       \<and> catches E IOError e \<longrightarrow>
       do_mput E args sh = caught sh (Mput (getcwd E (world sh)) args) (msg e) w)
    \<and> (tokenize E args = (ts, []) \<and> ts \<noteq> [] \<and> length ts \<le> 2
       \<and> run E (Get (ts ! 0) (dst ts)) (dir f) (world sh) = (Some e, w) \<and> catches E IOError e \<longrightarrow>
       do_get E args sh = caught sh (Get (ts ! 0) (dst ts)) (msg e) w)
    \<and> (tokenize E args = (ts, []) \<and> ts \<noteq> [] \<and> length ts \<le> 2
       \<and> run E (Getr (ts ! 0) (dst ts)) (dir f) (world sh) = (Some e, w) \<and> catches E IOError e \<longrightarrow>
       do_getr E args sh = caught sh (Getr (ts ! 0) (dst ts)) (msg e) w)
    \<and> (run E (Mget (getcwd E (world sh)) args) (dir f) (world sh) = (Some e, w)
       \<and> catches E IOError e \<longrightarrow>
       do_mget E args sh = caught sh (Mget (getcwd E (world sh)) args) (msg e) w)
    \<and> (tokenize E args = ([t], []) \<and> run E (Rm t) (dir f) (world sh) = (Some e, w)
       \<and> catches E IOError e \<longrightarrow>
       do_rm E args sh = caught sh (Rm t) (msg e) w)
    \<and> (tokenize E args = ([t], []) \<and> run E (Rm t) (dir f) (world sh) = (Some e, w)
       \<and> cls e = PyboardError \<longrightarrow>
       do_rm E args sh = caught sh (Rm t) (''Unable to send request to '' @ sysname f) w)
    \<and> (tokenize E args = ([t], []) \<and> run E (Rmr t) (dir f) (world sh) = (Some e, w)
       \<and> catches E IOError e \<longrightarrow>
       do_rmr E args sh = caught sh (Rmr t) (msg e) w)
    \<and> (tokenize E args = ([t], []) \<and> run E (Rmr t) (dir f) (world sh) = (Some e, w)
       \<and> cls e = PyboardError \<longrightarrow>
       do_rmr E args sh = caught sh (Rmr t) (''Unable to send request to '' @ sysname f) w)
    \<and> (run E (Mrm args) (dir f) (world sh) = (Some e, w) \<and> catches E IOError e \<longrightarrow>
       do_mrm E args sh = caught sh (Mrm args) (msg e) w)
    \<and> (tokenize E args = ([t], []) \<and> contents E t (dir f) (world sh) = (Inl e, w)
       \<and> catches E IOError e \<longrightarrow>
       do_cat E args sh = caught sh (Gets t) (msg e) w)
    \<and> (tokenize E args = ([t], []) \<and> run E (MpyCross t) (dir f) (world sh) = (Some e, w)
       \<and> catches E IOError e \<longrightarrow>
       do_mpyc E args sh = caught sh (MpyCross t) (msg e) w)
    \<and> (listing E (dir f) (world sh) = (Inl e, w) \<and> catches E IOError e \<longrightarrow>
       do_ls E [] sh =
         (Return (), sh\<lparr>trace := trace sh @ [Call Pwd, Call Ls, Err (msg e)], world := w\<rparr>))"
  apply (intro conjI impI)
                 apply (elim conjE, erule (2) caught_cd [OF f a])
                apply (elim conjE, erule (2) caught_md [OF f a])
               apply (elim conjE, erule (4) caught_put [OF f a])
              apply (elim conjE, erule (4) caught_putr [OF f a])
             apply (elim conjE, erule (1) caught_mput [OF f a])
            apply (elim conjE, erule (4) caught_get [OF f a])
           apply (elim conjE, erule (4) caught_getr [OF f a])
          apply (elim conjE, erule (1) caught_mget [OF f a])
         apply (elim conjE, erule (2) caught_rm [OF f a])
        apply (elim conjE, erule (2) caught_rm_pyb [OF f a])
       apply (elim conjE, erule (2) caught_rmr [OF f a])
      apply (elim conjE, erule (2) caught_rmr_pyb [OF f a])
     apply (elim conjE, erule (1) caught_mrm [OF f a])
    apply (elim conjE, erule (2) caught_cat [OF f a])
   apply (elim conjE, erule (2) caught_mpyc [OF f a])
  apply (elim conjE, erule (1) caught_ls [OF f])
  done


text \<open>The theorem on the board: removing and making \<open>lib\<close>.\<close>

theorem io_errors_are_reported_witness:
  "do_rm board ''lib'' (at_dir ''/'')
     = caught (at_dir ''/'') (Rm ''lib'') ''No such file or directory: lib'' 1
   \<and> do_md board ''lib'' (at_dir ''/'')
     = caught (at_dir ''/'') (Md ''lib'') ''Invalid directory name: lib'' 1"
proof -
  let ?root = "\<lparr>dir = ''/'', sysname = ''pyboard''\<rparr>"
  let ?e = "Exn RemoteIOError ''No such file or directory: lib''"
  let ?d = "Exn RemoteIOError ''Invalid directory name: lib''"
  have f: "fe (at_dir ''/'') = Some ?root" and a: "''lib'' \<noteq> []"
    by (simp_all add: at_dir_def)
  have r: "tokenize board ''lib'' = ([''lib''], [])
      \<and> run board (Rm ''lib'') (dir ?root) (world (at_dir ''/'')) = (Some ?e, 1)
      \<and> catches board IOError ?e"
    by (simp add: board_defs catches_def)
  have m: "tokenize board ''lib'' = ([''lib''], [])
      \<and> run board (Md ''lib'') (dir ?root) (world (at_dir ''/'')) = (Some ?d, 1)
      \<and> catches board IOError ?d"
    by (simp add: board_defs catches_def)
  have 1: "do_rm board ''lib'' (at_dir ''/'') = caught (at_dir ''/'') (Rm ''lib'') (msg ?e) 1"
    by (rule io_errors_are_reported [OF f a, of board "''lib''" ?e 1 "[''lib'']",
          THEN conjunct2, THEN conjunct2, THEN conjunct2, THEN conjunct2, THEN conjunct2,
          THEN conjunct2, THEN conjunct2, THEN conjunct2, THEN conjunct1, rule_format, OF r])
  have 2: "do_md board ''lib'' (at_dir ''/'') = caught (at_dir ''/'') (Md ''lib'') (msg ?d) 1"
    by (rule io_errors_are_reported [OF f a, of board "''lib''" ?d 1 "[''lib'']",
          THEN conjunct2, THEN conjunct1, rule_format, OF m])
  from 1 2 show ?thesis
    by simp
qed

text \<open>
  Claim C7 as stated fails. \<open>tree\<close> changes into its directory outside any \<open>try\<close>: the
  \<open>RemoteIOError\<close> of a directory that does not exist leaves the handler. And no handler
  but the connect step names \<open>ConError\<close>: with the link down, \<open>md\<close> lets it through.
\<close>

theorem errors_escape_counterexample:
  "do_tree board ''nope'' (at_dir ''/'') =
     (Raise (Exn RemoteIOError ''No such directory: /nope''),
      (at_dir ''/'')\<lparr>trace := [Call Pwd, Call (Cd ''nope'')], world := 1\<rparr>)
   \<and> do_md unplugged ''data'' (at_dir ''/'') =
     (Raise (Exn ConError ''device not reachable''), (at_dir ''/'')\<lparr>trace := [Call (Md ''data'')]\<rparr>)"
  by (simp add: do_tree_def do_md_def act_defs fe_defs board_defs unplugged_def catches_def)

subsection \<open>The order of a listing\<close>

lemma D_less_F: "''D'' < ''F''"
  by (simp add: less_char_def)

lemma insort_two_keys:
  assumes "a < b" "\<forall>x\<in>set xs. k x = a" "\<forall>x\<in>set ys. k x = b" "k x = a \<or> k x = b"
  shows "insort_key k x (xs @ ys) = (if k x = a then x # xs @ ys else xs @ x # ys)"
  using assms
proof (induction xs)
  case Nil
  then show ?case
    by (cases "k x = a") (auto intro!: insort_is_Cons)
next
  case (Cons y xs)
  then have ky: "k y = a"
    by simp
  show ?case
  proof (cases "k x = a")
    case True
    with ky show ?thesis by simp
  next
    case False
    with Cons.prems have "k x = b" by simp
    with ky Cons.prems(1) have "\<not> k x \<le> k y" by simp
    with Cons False show ?thesis by simp
  qed
qed


lemma sort_two_keys:
  assumes "(a::'k::linorder) < b" "\<forall>x\<in>set xs. k x = a \<or> k x = b"
  shows "sort_key k xs = filter (\<lambda>x. k x = a) xs @ filter (\<lambda>x. k x = b) xs"
  using assms(2)
proof (induction xs)
  case Nil
  then show ?case by simp
next
  case (Cons x xs)
  let ?A = "filter (\<lambda>x. k x = a) xs" and ?B = "filter (\<lambda>x. k x = b) xs"
  from Cons have ih: "sort_key k xs = ?A @ ?B" and kx: "k x = a \<or> k x = b"
    by simp_all
  have ab: "a \<noteq> b"
    using assms(1) by simp
  have "sort_key k (x # xs) = insort_key k x (?A @ ?B)"
    by (simp add: ih)
  also have "\<dots> = (if k x = a then x # ?A @ ?B else ?A @ x # ?B)"
    using assms(1) kx by (intro insort_two_keys) simp_all
  also have "\<dots> = filter (\<lambda>x. k x = a) (x # xs) @ filter (\<lambda>x. k x = b) (x # xs)"
    using kx ab by (cases "k x = a") simp_all
  finally show ?case .
qed


lemma ls_sorted_parts:
  assumes "\<forall>x\<in>set xs. snd x = ''D'' \<or> snd x = ''F''"
  shows "ls_sorted xs = sort_key fst [x\<leftarrow>xs. snd x = ''D''] @ sort_key fst [x\<leftarrow>xs. snd x = ''F'']"
proof -
  have "\<forall>x\<in>set (sort_key fst xs). snd x = ''D'' \<or> snd x = ''F''"
    using assms by simp
  from sort_two_keys [OF D_less_F this]
  have "ls_sorted xs = filter (\<lambda>x. snd x = ''D'') (sort_key fst xs)
      @ filter (\<lambda>x. snd x = ''F'') (sort_key fst xs)"
    unfolding ls_sorted_def .
  then show ?thesis
    unfolding filter_sort .
qed


lemma ls_trace_here:
  assumes "fe sh = Some f" and "listing E (dir f) (world sh) = (Inr files, w2)"
  shows "trace (snd (do_ls E [] sh)) =
           trace sh @ [Call Pwd, Call Ls, Call Pwd, Call Pwd, Print (ls_header (dir f))]
           @ map (\<lambda>entry. Print (ls_line (color sh) entry)) (ls_entries (dir f) files)
           @ [Print []]"
  using assms by (simp add: do_ls_def ls_try_def act_defs fe_defs each_emit)

lemma ls_trace_there:
  assumes "fe sh = Some f" and "directory \<noteq> []"
    and "run E (Cd (cd_path E f directory)) (dir f) (world sh) = (None, w1)"
    and "listing E (cd_path E f directory) w1 = (Inr files, w2)"
  shows "trace (snd (do_ls E directory sh)) =
           trace sh @ [Call Pwd, Call (Cd directory), Call Ls, Call Pwd, Call Pwd,
                       Print (ls_header (cd_path E f directory))]
           @ map (\<lambda>entry. Print (ls_line (color sh) entry)) (ls_entries (cd_path E f directory) files)
           @ [Print [], Call (Cd (dir f))]"
proof -
  let ?g = "f\<lparr>dir := cd_path E f directory\<rparr>"
  obtain res w3 where rst: "run E (Cd (cd_path E ?g (dir f))) (dir ?g) w2 = (res, w3)"
    by (cases "run E (Cd (cd_path E ?g (dir f))) (dir ?g) w2")
  show ?thesis
    using assms rst
    by (cases res) (simp_all add: do_ls_def ls_try_def act_defs fe_defs each_emit)
qed


lemma kinds_apart:
  assumes "\<forall>x\<in>set xs. snd x = ''D'' \<or> snd x = ''F''"
  shows "[x\<leftarrow>ls_sorted xs. snd x = ''D''] = sort_key fst [x\<leftarrow>xs. snd x = ''D'']"
    and "[x\<leftarrow>ls_sorted xs. snd x = ''F''] = sort_key fst [x\<leftarrow>xs. snd x = ''F'']"
proof -
  let ?A = "sort_key fst [x\<leftarrow>xs. snd x = ''D'']" and ?B = "sort_key fst [x\<leftarrow>xs. snd x = ''F'']"
  have a: "filter (\<lambda>x. snd x = ''D'') ?A = ?A" "filter (\<lambda>x. snd x = ''F'') ?A = []"
    by (simp_all add: filter_empty_conv)
  have b: "filter (\<lambda>x. snd x = ''F'') ?B = ?B" "filter (\<lambda>x. snd x = ''D'') ?B = []"
    by (simp_all add: filter_empty_conv)
  show "[x\<leftarrow>ls_sorted xs. snd x = ''D''] = ?A"
    unfolding ls_sorted_parts [OF assms] filter_append a b by simp
  show "[x\<leftarrow>ls_sorted xs. snd x = ''F''] = ?B"
    unfolding ls_sorted_parts [OF assms] filter_append a b by simp
qed

lemma with_parent_kinds:
  "\<forall>x\<in>set files. snd x = ''D'' \<or> snd x = ''F'' \<Longrightarrow>
     \<forall>x\<in>set (with_parent p files). snd x = ''D'' \<or> snd x = ''F''"
  by (simp add: with_parent_def)

text \<open>
  Claim C10. With a session open and every listed kind \<open>D\<close> or \<open>F\<close>, what \<open>ls\<close>
  prints after its header is one line for each entry of \<open>ls_entries\<close>, in that order:
  the listing of the directory it is in by then, with the entry \<open>("..", "D")\<close> added when
  that directory is not \<open>/\<close>. These entries are the directories followed by the files,
  and each of the two parts is sorted by name.
\<close>

theorem ls_shows_sorted:
  assumes f: "fe sh = Some f"
    and k: "\<forall>entry\<in>set files. snd entry = ''D'' \<or> snd entry = ''F''"
  shows
   "(listing E (dir f) (world sh) = (Inr files, w2) \<longrightarrow>
       trace (snd (do_ls E [] sh)) =
         trace sh @ [Call Pwd, Call Ls, Call Pwd, Call Pwd, Print (ls_header (dir f))]
         @ map (\<lambda>entry. Print (ls_line (color sh) entry)) (ls_entries (dir f) files)
         @ [Print []])
    \<and> (directory \<noteq> [] \<and> run E (Cd (cd_path E f directory)) (dir f) (world sh) = (None, w1)
         \<and> listing E (cd_path E f directory) w1 = (Inr files, w2) \<longrightarrow>
       trace (snd (do_ls E directory sh)) =
         trace sh @ [Call Pwd, Call (Cd directory), Call Ls, Call Pwd, Call Pwd,
                     Print (ls_header (cd_path E f directory))]
         @ map (\<lambda>entry. Print (ls_line (color sh) entry)) (ls_entries (cd_path E f directory) files)
         @ [Print [], Call (Cd (dir f))])
    \<and> (p \<noteq> ''/'' \<longrightarrow> mset (ls_entries p files) = mset ((''..'', ''D'') # files))
    \<and> (p = ''/'' \<longrightarrow> mset (ls_entries p files) = mset files)
    \<and> ls_entries p files
        = [x\<leftarrow>ls_entries p files. snd x = ''D''] @ [x\<leftarrow>ls_entries p files. snd x = ''F'']
    \<and> sorted (map fst [x\<leftarrow>ls_entries p files. snd x = ''D''])
    \<and> sorted (map fst [x\<leftarrow>ls_entries p files. snd x = ''F''])"
proof -
  note wk = with_parent_kinds [OF k, of p]
  have 1: "listing E (dir f) (world sh) = (Inr files, w2) \<longrightarrow>
       trace (snd (do_ls E [] sh)) =
         trace sh @ [Call Pwd, Call Ls, Call Pwd, Call Pwd, Print (ls_header (dir f))]
         @ map (\<lambda>entry. Print (ls_line (color sh) entry)) (ls_entries (dir f) files)
         @ [Print []]"
    using ls_trace_here [OF f] by blast
  have 2: "directory \<noteq> [] \<and> run E (Cd (cd_path E f directory)) (dir f) (world sh) = (None, w1)
         \<and> listing E (cd_path E f directory) w1 = (Inr files, w2) \<longrightarrow>
       trace (snd (do_ls E directory sh)) =
         trace sh @ [Call Pwd, Call (Cd directory), Call Ls, Call Pwd, Call Pwd,
                     Print (ls_header (cd_path E f directory))]
         @ map (\<lambda>entry. Print (ls_line (color sh) entry)) (ls_entries (cd_path E f directory) files)
         @ [Print [], Call (Cd (dir f))]"
    using ls_trace_there [OF f] by blast
  have 3: "p \<noteq> ''/'' \<longrightarrow> mset (ls_entries p files) = mset ((''..'', ''D'') # files)"
    and 4: "p = ''/'' \<longrightarrow> mset (ls_entries p files) = mset files"
    by (simp_all add: ls_entries_def ls_sorted_def with_parent_def)
  have 5: "ls_entries p files
        = [x\<leftarrow>ls_entries p files. snd x = ''D''] @ [x\<leftarrow>ls_entries p files. snd x = ''F'']"
    unfolding ls_entries_def kinds_apart [OF wk] by (rule ls_sorted_parts [OF wk])
  have 6: "sorted (map fst [x\<leftarrow>ls_entries p files. snd x = ''D''])"
    and 7: "sorted (map fst [x\<leftarrow>ls_entries p files. snd x = ''F''])"
    unfolding ls_entries_def kinds_apart [OF wk] by simp_all
  from 1 2 3 4 5 6 7 show ?thesis
    by (intro conjI)
qed


text \<open>The theorem on the board, listing \<open>/lib\<close> from inside it.\<close>

theorem ls_shows_sorted_witness:
  "trace (snd (do_ls board [] (at_dir ''/lib''))) =
     [Call Pwd, Call Ls, Call Pwd, Call Pwd, Print (ls_header ''/lib''),
      Print '' <dir> ..'', Print '' <dir> pkg'', Print ''       main.py'', Print ''       util.py'',
      Print []]
   \<and> ls_entries ''/lib'' [(''util.py'', ''F''), (''pkg'', ''D''), (''main.py'', ''F'')]
       = [(''..'', ''D''), (''pkg'', ''D''), (''main.py'', ''F''), (''util.py'', ''F'')]"
proof -
  let ?lib = "\<lparr>dir = ''/lib'', sysname = ''pyboard''\<rparr>"
  let ?files = "[(''util.py'', ''F''), (''pkg'', ''D''), (''main.py'', ''F'')]"
  have f: "fe (at_dir ''/lib'') = Some ?lib"
    by (simp add: at_dir_def)
  have k: "\<forall>entry\<in>set ?files. snd entry = ''D'' \<or> snd entry = ''F''"
    by simp
  have l: "listing board (dir ?lib) (world (at_dir ''/lib'')) = (Inr ?files, 1)"
    by (simp add: board_defs)
  have e: "ls_entries ''/lib'' ?files
       = [(''..'', ''D''), (''pkg'', ''D''), (''main.py'', ''F''), (''util.py'', ''F'')]"
    by (simp add: ls_entries_def ls_sorted_def with_parent_def less_eq_char_def)
  have c: "color (at_dir ''/lib'') = False" "trace (at_dir ''/lib'') = []"
    by (simp_all add: at_dir_def new_shell_def)
  have "trace (snd (do_ls board [] (at_dir ''/lib''))) =
         trace (at_dir ''/lib'') @ [Call Pwd, Call Ls, Call Pwd, Call Pwd, Print (ls_header (dir ?lib))]
         @ map (\<lambda>entry. Print (ls_line (color (at_dir ''/lib'')) entry)) (ls_entries (dir ?lib) ?files)
         @ [Print []]"
    by (rule ls_shows_sorted [OF f k, of board 1 "[]" 0 "''/lib''", THEN conjunct1, rule_format, OF l])
  then have "trace (snd (do_ls board [] (at_dir ''/lib''))) =
     [Call Pwd, Call Ls, Call Pwd, Call Pwd, Print (ls_header ''/lib''),
      Print '' <dir> ..'', Print '' <dir> pkg'', Print ''       main.py'', Print ''       util.py'',
      Print []]"
    by (simp add: c e ls_line_def)
  then show ?thesis
    using e by (intro conjI)
qed

subsection \<open>Uploading and downloading\<close>

lemma concat_chunks: "0 < c \<Longrightarrow> concat (chunks c bs) = bs"
proof (induction c bs rule: chunks.induct)
  case (1 c bs)
  then show ?case
    by (subst chunks.simps) simp
qed

lemma write_all_escaped: "write_all (map escape cs) content = Some (content @ concat cs)"
  by (induction cs arbitrary: content) (simp_all add: unescape_escape_app)


lemma read_all_rest:
  "0 < c \<Longrightarrow> read_all c content pos got = Some (got @ drop pos content)"
proof (induction c content pos got rule: read_all.induct)
  case (1 c content pos got)
  let ?chunk = "take c (drop pos content)"
  have u: "unhexlify (hexlify ?chunk) = Some ?chunk"
    by (rule unhexlify_hexlify)
  show ?case
  proof (cases "?chunk = []")
    case True
    with "1.prems" have "drop pos content = []"
      by simp
    with True u show ?thesis
      by (subst read_all.simps) simp
  next
    case False
    show ?thesis
    proof (cases "length ?chunk < c")
      case True
      then have "?chunk = drop pos content"
        by simp
      with False True u show ?thesis
        by (subst read_all.simps) simp
    next
      case long: False
      have "read_all c content (pos + c) (got @ ?chunk)
          = Some ((got @ ?chunk) @ drop (pos + c) content)"
        using False long u "1.prems" by (intro "1.IH") simp_all
      moreover have "?chunk @ drop (pos + c) content = drop pos content"
        using append_take_drop_id [of c "drop pos content"] by (simp add: add.commute)
      ultimately show ?thesis
        using False long u by (subst read_all.simps) (simp del: read_all.simps)
    qed
  qed
qed

text \<open>
  Claim C8. For every file content \<open>f\<close> and every chunk size \<open>c > 0\<close>: uploading the local
  file with \<open>put\<close> succeeds and leaves the remote file with the content \<open>f\<close>, and
  downloading that remote path with \<open>get\<close> then succeeds and leaves a local file with
  the content \<open>f\<close>, byte for byte.
\<close>

theorem put_get_roundtrip:
  assumes "0 < c" and "local_files w lpath = Some f"
  shows "\<exists>w1 w2. put_file c lpath rpath w = Inr w1 \<and> remote_files w1 rpath = Some f
           \<and> get_file c rpath back w1 = Inr w2 \<and> local_files w2 back = Some f"
  using assms
  by (simp add: put_file_def get_file_def write_all_escaped concat_chunks read_all_rest)

text \<open>The theorem on the laptop's file, in chunks of four bytes.\<close>

theorem put_get_roundtrip_witness:
  "(0::nat) < 4
   \<and> local_files laptop ''app.py'' = Some (''print(1)'' @ [CHR 0x0A, CHR 0x00, CHR 0x5C, CHR 0x27, CHR 0xFF])
   \<and> (\<exists>w1 w2. put_file 4 ''app.py'' ''/app.py'' laptop = Inr w1
         \<and> remote_files w1 ''/app.py'' = Some (''print(1)'' @ [CHR 0x0A, CHR 0x00, CHR 0x5C, CHR 0x27, CHR 0xFF])
         \<and> get_file 4 ''/app.py'' ''copy.py'' w1 = Inr w2
         \<and> local_files w2 ''copy.py'' = Some (''print(1)'' @ [CHR 0x0A, CHR 0x00, CHR 0x5C, CHR 0x27, CHR 0xFF]))"
proof -
  have c: "(0::nat) < 4"
    by simp
  have l: "local_files laptop ''app.py'' = Some (''print(1)'' @ [CHR 0x0A, CHR 0x00, CHR 0x5C, CHR 0x27, CHR 0xFF])"
    by (simp add: laptop_def)
  show ?thesis
    by (intro conjI c l put_get_roundtrip [OF c l])
qed

end
